theory Spec2Isabelle
  imports Main
begin

section \<open>The workflow engine of frappe/model/workflow.py\<close>

text \<open>
  A shallow embedding of \<^verbatim>\<open>frappe/model/workflow.py\<close>. Python objects are records, the
  exceptions are values, and everything the module reaches through the \<^verbatim>\<open>frappe\<close> namespace
  (database, cache, message log, session, the sandboxed evaluator, the lifecycle methods of a
  document) is either a component of an explicit \<open>world\<close> that is passed along and returned, or a
  field of the \<open>env\<close> record of collaborators the module only calls.
\<close>

subsection \<open>Exceptions and user-facing messages\<close>

datatype exn_class =
    WorkflowStateError
  | WorkflowTransitionError
  | WorkflowPermissionError
  | ValidationError
  | PermissionError
  | DoesNotExistError
  | IndexError
  | AttributeError
  | OtherError string

text \<open>An exception instance: its class and \<^verbatim>\<open>e.args[0]\<close> when \<^verbatim>\<open>e.args\<close> is not empty.\<close>

datatype exn = Exn exn_class "string option"

text \<open>
  An entry of \<^verbatim>\<open>frappe.message_log\<close>. \<^verbatim>\<open>frappe.msgprint\<close> appends one; \<^verbatim>\<open>frappe.throw\<close> appends
  one with \<^verbatim>\<open>raise_exception\<close> set and then raises.
\<close>

record message =
  msg_text :: string
  raise_exception :: bool
  msg_title :: "string option"
  indicator :: "string option"

subsection \<open>Documents, workflows and the action ledger\<close>

text \<open>
  A document. The attributes the module reads by name are fields of the record; the data
  fields a workflow addresses by a configured field name (\<^verbatim>\<open>doc.get(f)\<close>, \<^verbatim>\<open>doc.set(f, v)\<close>) are
  the map \<open>field_values\<close>, where \<open>None\<close> is Python's \<^verbatim>\<open>None\<close>. \<open>workflow_def\<close> and \<open>company\<close> are \<open>None\<close>
  when the object has no such attribute (\<^verbatim>\<open>hasattr\<close> is false). \<open>islocal\<close> is the flag
  \<^verbatim>\<open>__islocal\<close> that \<^verbatim>\<open>doc.is_new()\<close> reads.
\<close>

record document =
  doctype :: string
  name :: string
  owner :: "string option"
  docstatus :: int
  islocal :: bool
  workflow_def :: "string option"
  company :: "string option option"
  workflow_action :: "string option"
  workflow_comment :: "string option"
  field_values :: "string \<rightharpoonup> string"

text \<open>A row of \<^verbatim>\<open>workflow.states\<close> (Workflow Document State).\<close>

record workflow_document_state =
  state :: string
  doc_status :: string
  update_field :: "string option"
  update_value :: "string option"

text \<open>
  A transition: a row of \<^verbatim>\<open>workflow.transitions\<close>, a Workflow Transition document fetched by
  name, or the \<^verbatim>\<open>frappe._dict\<close> that \<^verbatim>\<open>apply_workflow\<close> builds for the action Start. A
  \<^verbatim>\<open>frappe._dict\<close> answers \<^verbatim>\<open>None\<close> for a key it does not hold, hence the options. The source
  state is \<open>from_state\<close> (\<^verbatim>\<open>transition.state\<close>).
\<close>

record workflow_transition =
  from_state :: "string option"
  action :: "string option"
  next_state :: "string option"
  condition :: "string option"
  allow_self_approval :: int
  multi_user_action_mode :: string

record workflow =
  workflow_name :: string
  workflow_state_field :: string
  states :: "workflow_document_state list"
  transitions :: "workflow_transition list"

record workflow_assignment =
  wa_company :: "string option"
  eval_condition :: "string option"
  wa_workflow :: string

datatype action_status = Open | Completed

text \<open>A Workflow Action record of the ledger.\<close>

record workflow_action_record =
  reference_doctype :: string
  reference_name :: string
  wa_workflow_state :: "string option"
  wa_user :: string
  wa_status :: action_status
  wa_actions :: "string option"
  wa_action_source :: string
  wa_previous_user :: "string option"

record comment_record =
  c_doctype :: string
  c_name :: string
  c_type :: string
  c_text :: string

subsection \<open>The world\<close>

text \<open>
  The transactional store: persisted documents, the ledger and the audit comments.
\<close>

record database =
  docs :: "(string \<times> string) \<rightharpoonup> document"
  actions :: "workflow_action_record list"
  comments :: "comment_record list"

text \<open>
  \<open>db\<close> is the state of the current unit of work, \<open>committed\<close> the last committed state;
  \<open>progress_log\<close> holds what \<^verbatim>\<open>frappe.publish_progress\<close> received, the percentage as the pair
  \<open>(i * 100, n)\<close> of its numerator and denominator.
\<close>

record world =
  db :: database
  committed :: database
  message_log :: "message list"
  workflow_cache :: "string \<rightharpoonup> workflow"
  error_log :: "string list"
  progress_log :: "((nat \<times> nat) \<times> string \<times> string) list"

text \<open>What a lifecycle method of a document (\<^verbatim>\<open>save\<close>, \<^verbatim>\<open>submit\<close>, \<^verbatim>\<open>cancel\<close>) leaves behind.\<close>

record lifecycle_result =
  lr_messages :: "message list"
  lr_raised :: "exn option"
  lr_doc :: document
  lr_db :: database

text \<open>
  The collaborators the module calls and does not define: the session, the sandboxed
  evaluator (truthiness of its value, or the exception it raises), the permission service,
  \<^verbatim>\<open>frappe.utils.cint\<close>, the configuration documents, the key under which the cache files a
  document, the lifecycle methods, the records \<^verbatim>\<open>create_workflow_actions\<close> builds from its
  arguments, and \<^verbatim>\<open>get_link_to_form\<close>.
\<close>

record env =
  session_user :: string
  safe_eval :: "world \<Rightarrow> string \<Rightarrow> document \<Rightarrow> exn + bool"
  has_permission :: "world \<Rightarrow> document \<Rightarrow> bool"
  cint :: "string \<Rightarrow> int"
  workflow_assignments :: "string \<Rightarrow> workflow_assignment list"
  get_workflow_doc :: "string \<Rightarrow> workflow option"
  get_transition_doc :: "string \<Rightarrow> workflow_transition option"
  cache_key :: "document \<Rightarrow> string"
  save :: "document \<Rightarrow> database \<Rightarrow> lifecycle_result"
  submit :: "document \<Rightarrow> database \<Rightarrow> lifecycle_result"
  cancel :: "document \<Rightarrow> database \<Rightarrow> lifecycle_result"
  new_action_records ::
    "workflow \<Rightarrow> document \<Rightarrow> string option \<Rightarrow> string option \<Rightarrow> string \<Rightarrow> string
       \<Rightarrow> string option \<Rightarrow> workflow_action_record list"
  get_link_to_form :: "string \<Rightarrow> string \<Rightarrow> string"

subsection \<open>Primitives of the framework\<close>

definition is_new :: "document \<Rightarrow> bool" where
  "is_new doc = islocal doc"

text \<open>Truthiness of a value that is \<^verbatim>\<open>None\<close> or a string.\<close>

definition truthy :: "string option \<Rightarrow> bool" where
  "truthy v = (case v of None \<Rightarrow> False | Some s \<Rightarrow> s \<noteq> [])"

text \<open>\<^verbatim>\<open>'%s' % v\<close> for a value that is \<^verbatim>\<open>None\<close> or a string.\<close>

definition py_str :: "string option \<Rightarrow> string" where
  "py_str v = (case v of None \<Rightarrow> ''None'' | Some s \<Rightarrow> s)"

definition msgprint :: "world \<Rightarrow> string \<Rightarrow> string option \<Rightarrow> string option \<Rightarrow> world" where
  "msgprint w msg ttl ind =
     w\<lparr>message_log := message_log w @
        [\<lparr>msg_text = msg, raise_exception = False, msg_title = ttl, indicator = ind\<rparr>]\<rparr>"

text \<open>
  \<^verbatim>\<open>frappe.throw(msg, exc)\<close>: the message is logged, then \<^verbatim>\<open>exc(msg)\<close> is raised. Where a
  collaborator throws (the permission service, \<^verbatim>\<open>frappe.get_doc\<close> on a missing document), the
  wording of its message is the collaborator's; the model fixes one.
\<close>

definition throw :: "world \<Rightarrow> string \<Rightarrow> exn_class \<Rightarrow> exn \<times> world" where
  "throw w msg exc =
     (Exn exc (Some msg),
      w\<lparr>message_log := message_log w @
        [\<lparr>msg_text = msg, raise_exception = True, msg_title = None, indicator = Some ''red''\<rparr>]\<rparr>)"

definition clear_messages :: "world \<Rightarrow> world" where
  "clear_messages w = w\<lparr>message_log := []\<rparr>"

definition db_commit :: "world \<Rightarrow> world" where
  "db_commit w = w\<lparr>committed := db w\<rparr>"

definition db_rollback :: "world \<Rightarrow> world" where
  "db_rollback w = w\<lparr>db := committed w\<rparr>"

definition add_comment :: "world \<Rightarrow> document \<Rightarrow> string \<Rightarrow> string \<Rightarrow> world" where
  "add_comment w doc ctype txt =
     w\<lparr>db := (db w)\<lparr>comments := comments (db w) @
        [\<lparr>c_doctype = doctype doc, c_name = name doc, c_type = ctype, c_text = txt\<rparr>]\<rparr>\<rparr>"

text \<open>\<^verbatim>\<open>doc.set(f, v)\<close> on a data field.\<close>

definition doc_set :: "document \<Rightarrow> string \<Rightarrow> string option \<Rightarrow> document" where
  "doc_set doc f v = doc\<lparr>field_values := (field_values doc)(f := v)\<rparr>"

subsection \<open>evaluate_condition, get_workflow\<close>

definition evaluate_condition :: "env \<Rightarrow> world \<Rightarrow> string option \<Rightarrow> document \<Rightarrow> exn + bool" where
  "evaluate_condition env w cond doc =
     (if truthy cond then safe_eval env w (the cond) doc else Inr True)"

definition fetch_workflow :: "env \<Rightarrow> world \<Rightarrow> string \<Rightarrow> (exn + workflow) \<times> world" where
  "fetch_workflow env w wname =
     (case get_workflow_doc env wname of
        None \<Rightarrow> (case throw w (''Workflow '' @ wname @ '' not found'') DoesNotExistError of
                   (e, w') \<Rightarrow> (Inl e, w'))
      | Some wkf \<Rightarrow> (Inr wkf, w))"

text \<open>The loop of \<^verbatim>\<open>get_workflow\<close> over the assignments of a new document.\<close>

fun assigned_workflow ::
  "env \<Rightarrow> world \<Rightarrow> document \<Rightarrow> workflow_assignment list \<Rightarrow> (exn + workflow option) \<times> world"
where
  "assigned_workflow env w doc [] = (Inr None, w)"
| "assigned_workflow env w doc (a # as) =
     (case evaluate_condition env w (eval_condition a) doc of
        Inl e \<Rightarrow> (Inl e, w)
      | Inr b \<Rightarrow>
          if b \<and> (company doc = None \<or> \<not> truthy (wa_company a)
                   \<or> (company doc \<noteq> None \<and> the (company doc) = wa_company a))
          then (case fetch_workflow env w (wa_workflow a) of
                  (Inl e, w') \<Rightarrow> (Inl e, w')
                | (Inr wkf, w') \<Rightarrow> (Inr (Some wkf), w'))
          else assigned_workflow env w doc as)"

definition get_workflow :: "env \<Rightarrow> world \<Rightarrow> document \<Rightarrow> (exn + workflow option) \<times> world" where
  "get_workflow env w doc =
     (case workflow_def doc of
        None \<Rightarrow> (Inr None, w)
      | Some wd \<Rightarrow>
          if is_new doc then assigned_workflow env w doc (workflow_assignments env (doctype doc))
          else (case workflow_cache w (cache_key env doc) of
                  Some wkf \<Rightarrow> (Inr (Some wkf), w)
                | None \<Rightarrow>
                    (case fetch_workflow env w wd of
                       (Inl e, w') \<Rightarrow> (Inl e, w')
                     | (Inr wkf, w') \<Rightarrow>
                         (Inr (Some wkf),
                          w'\<lparr>workflow_cache := (workflow_cache w')(cache_key env doc \<mapsto> wkf)\<rparr>))))"

subsection \<open>get_transitions\<close>

text \<open>
  The loop of \<^verbatim>\<open>get_transitions\<close>: \<open>acc\<close> is the list \<^verbatim>\<open>transitions\<close> built so far, and an
  exception of the evaluator leaves the loop.
\<close>

fun collect_transitions ::
  "env \<Rightarrow> world \<Rightarrow> document \<Rightarrow> string option \<Rightarrow> workflow_transition list
     \<Rightarrow> workflow_transition list \<Rightarrow> exn + workflow_transition list"
where
  "collect_transitions env w doc cs [] acc = Inr acc"
| "collect_transitions env w doc cs (t # ts) acc =
     (if from_state t = cs
      then (case evaluate_condition env w (condition t) doc of
              Inl e \<Rightarrow> Inl e
            | Inr b \<Rightarrow>
                if \<not> b then collect_transitions env w doc cs ts acc
                else collect_transitions env w doc cs ts (acc @ [t]))
      else collect_transitions env w doc cs ts acc)"

definition get_transitions ::
  "env \<Rightarrow> world \<Rightarrow> document \<Rightarrow> workflow option \<Rightarrow> bool
     \<Rightarrow> (exn + workflow_transition list) \<times> world"
where
  "get_transitions env w doc workflow_arg raise_exc =
     (if is_new doc then (Inr [], w)
      else if \<not> has_permission env w doc
      then (case throw w (''No permission for '' @ doctype doc) PermissionError of
              (e, w') \<Rightarrow> (Inl e, w'))
      else
        (case (case workflow_arg of Some wkf \<Rightarrow> (Inr (Some wkf), w) | None \<Rightarrow> get_workflow env w doc) of
           (Inl e, w1) \<Rightarrow> (Inl e, w1)
         | (Inr None, w1) \<Rightarrow> (Inl (Exn AttributeError None), w1)
         | (Inr (Some wkf), w1) \<Rightarrow>
             (let current_state = field_values doc (workflow_state_field wkf) in
              if \<not> truthy current_state
              then (if raise_exc then (Inl (Exn WorkflowStateError None), w1)
                    else (case throw w1 ''Workflow State not set'' WorkflowStateError of
                            (e, w') \<Rightarrow> (Inl e, w')))
              else (case collect_transitions env w1 doc current_state (transitions wkf) [] of
                      Inl e \<Rightarrow> (Inl e, w1)
                    | Inr ts \<Rightarrow> (Inr ts, w1)))))"

subsection \<open>has_approval_access, other_user_open_action_count\<close>

definition has_approval_access :: "string \<Rightarrow> document \<Rightarrow> workflow_transition \<Rightarrow> bool" where
  "has_approval_access user doc transition =
     (user = ''Administrator''
      \<or> allow_self_approval transition \<noteq> 0
      \<or> Some user \<noteq> owner doc)"

definition other_user_open_action_count ::
  "env \<Rightarrow> world \<Rightarrow> document \<Rightarrow> string option \<Rightarrow> string \<Rightarrow> nat"
where
  "other_user_open_action_count env w doc st user =
     (let user = (if user \<noteq> [] then user else session_user env) in
      length (filter (\<lambda>a. wa_status a \<noteq> Completed
                          \<and> wa_workflow_state a = st
                          \<and> wa_user a \<noteq> user
                          \<and> reference_doctype a = doctype doc
                          \<and> reference_name a = name doc)
                (actions (db w))))"

subsection \<open>The ledger operations\<close>

text \<open>
  \<^verbatim>\<open>update_completed_workflow_actions\<close> and \<^verbatim>\<open>create_workflow_actions\<close> live in
  \<^verbatim>\<open>frappe/workflow/doctype/workflow_action/workflow_action.py\<close>, which \<^verbatim>\<open>apply_workflow\<close> imports.
\<close>

text \<open>
  Modelled from the spec: \<^verbatim>\<open>update_completed_workflow_actions\<close>, whose source is not part of
  the module. "completeActions(document, user, sourceAction): marks the acting user's Open
  action(s) for this document Completed."
\<close>

definition update_completed_workflow_actions ::
  "world \<Rightarrow> document \<Rightarrow> string \<Rightarrow> string \<Rightarrow> world"
where
  "update_completed_workflow_actions w doc user act =
     w\<lparr>db := (db w)\<lparr>actions :=
        map (\<lambda>a. if reference_doctype a = doctype doc \<and> reference_name a = name doc
                     \<and> wa_user a = user \<and> wa_status a = Open
                  then a\<lparr>wa_status := Completed\<rparr> else a)
            (actions (db w))\<rparr>\<rparr>"

text \<open>
  Modelled from the spec: \<^verbatim>\<open>create_workflow_actions\<close>, whose source is not part of the module.
  "createActions(workflow, document, targetUser, allowedActions, sourceAction, fromUser,
  comment?): records new Open action(s)". Which records it builds from its arguments is not
  said, so that is the collaborator \<open>new_action_records\<close>; what is said is that they are new
  (appended, no record touched) and Open.
\<close>

definition create_workflow_actions ::
  "env \<Rightarrow> world \<Rightarrow> workflow \<Rightarrow> document \<Rightarrow> string option \<Rightarrow> string option \<Rightarrow> string
     \<Rightarrow> string \<Rightarrow> string option \<Rightarrow> world"
where
  "create_workflow_actions env w wkf doc target_user possible_actions source_action user comment =
     w\<lparr>db := (db w)\<lparr>actions :=
        actions (db w) @
        map (\<lambda>a. a\<lparr>wa_status := Open\<rparr>)
          (new_action_records env wkf doc target_user possible_actions source_action user
             comment)\<rparr>\<rparr>"

subsection \<open>apply_workflow\<close>

text \<open>
  The search loop of \<^verbatim>\<open>apply_workflow\<close>: \<open>tr\<close> is the variable \<^verbatim>\<open>transition\<close>, assigned at every
  match; the loop has no \<^verbatim>\<open>break\<close>.
\<close>

fun find_transition ::
  "env \<Rightarrow> world \<Rightarrow> document \<Rightarrow> string \<Rightarrow> workflow_transition list
     \<Rightarrow> workflow_transition option \<Rightarrow> exn + workflow_transition option"
where
  "find_transition env w doc act [] tr = Inr tr"
| "find_transition env w doc act (t # ts) tr =
     (case evaluate_condition env w (condition t) doc of
        Inl e \<Rightarrow> Inl e
      | Inr b \<Rightarrow>
          if \<not> b then find_transition env w doc act ts tr
          else if action t = Some act then find_transition env w doc act ts (Some t)
          else find_transition env w doc act ts tr)"

text \<open>The \<^verbatim>\<open>frappe._dict\<close> built for the action Start.\<close>

definition start_transition :: "workflow_transition \<Rightarrow> workflow_transition" where
  "start_transition t0 =
     \<lparr>from_state = None, action = None, next_state = from_state t0, condition = None,
      allow_self_approval = 1, multi_user_action_mode = ''Any''\<rparr>"

text \<open>
  Lines 165 to 179: the value of \<^verbatim>\<open>transition\<close> before the test \<^verbatim>\<open>if not transition\<close>.
\<close>

definition resolve_transition ::
  "env \<Rightarrow> world \<Rightarrow> document \<Rightarrow> workflow \<Rightarrow> string \<Rightarrow> string option
     \<Rightarrow> (exn + workflow_transition option) \<times> world"
where
  "resolve_transition env w doc wkf act transition_name =
     (if truthy transition_name
      then (case get_transition_doc env (the transition_name) of
              None \<Rightarrow>
                (case throw w (''Workflow Transition '' @ the transition_name @ '' not found'')
                        DoesNotExistError of
                   (e, w') \<Rightarrow> (Inl e, w'))
            | Some t \<Rightarrow> (Inr (Some t), w))
      else if act = ''Start''
      then (case transitions wkf of
              [] \<Rightarrow> (Inl (Exn IndexError (Some ''list index out of range'')), w)
            | t0 # _ \<Rightarrow> (Inr (Some (start_transition t0)), w))
      else (case get_transitions env w doc (Some wkf) False of
              (Inl e, w1) \<Rightarrow> (Inl e, w1)
            | (Inr ts, w1) \<Rightarrow>
                (case find_transition env w1 doc act ts None of
                   Inl e \<Rightarrow> (Inl e, w1)
                 | Inr tr \<Rightarrow> (Inr tr, w1))))"

text \<open>
  The end of a lifecycle method called from the state-advancing branch: its messages and
  its store are taken over; when it returned, the audit comment is added.
\<close>

definition after_lifecycle ::
  "world \<Rightarrow> lifecycle_result \<Rightarrow> workflow_document_state \<Rightarrow> string option
     \<Rightarrow> exn option \<times> document \<times> world"
where
  "after_lifecycle w r ns comment =
     (let w' = w\<lparr>db := lr_db r, message_log := message_log w @ lr_messages r\<rparr> in
      case lr_raised r of
        Some e \<Rightarrow> (Some e, lr_doc r, w')
      | None \<Rightarrow>
          (None, lr_doc r,
           add_comment w' (lr_doc r) ''Workflow'' (state ns @ '' '' @ py_str comment)))"

text \<open>Lines 214 and 215: the update field of the new state, when it names one.\<close>

definition set_update_field :: "document \<Rightarrow> workflow_document_state \<Rightarrow> document" where
  "set_update_field doc2 ns =
     (if truthy (update_field ns)
      then doc_set doc2 (the (update_field ns)) (update_value ns)
      else doc2)"

text \<open>
  Lines 213 to 229: the document carries the new state, \<open>ns\<close> is the row of that state. The
  update field is written, the lifecycle method that the pair of statuses selects is called,
  and a pair that selects none is thrown as \<^verbatim>\<open>frappe.ValidationError\<close>.
\<close>

definition enter_state ::
  "env \<Rightarrow> world \<Rightarrow> document \<Rightarrow> workflow_document_state \<Rightarrow> string option
     \<Rightarrow> exn option \<times> document \<times> world"
where
  "enter_state env w doc2 ns comment =
     (let doc3 = set_update_field doc2 ns;
          new_docstatus = cint env (doc_status ns)
      in
      if docstatus doc3 = 0 \<and> new_docstatus = 0
      then after_lifecycle w (save env doc3 (db w)) ns comment
      else if docstatus doc3 = 0 \<and> new_docstatus = 1
      then after_lifecycle w (submit env doc3 (db w)) ns comment
      else if docstatus doc3 = 1 \<and> new_docstatus = 1
      then after_lifecycle w (save env doc3 (db w)) ns comment
      else if docstatus doc3 = 1 \<and> new_docstatus = 2
      then after_lifecycle w (cancel env doc3 (db w)) ns comment
      else (case throw w (''Illegal Document Status for '' @ state ns) ValidationError of
              (e, w') \<Rightarrow> (Some e, doc3, w')))"

text \<open>Lines 204 and 205: a rejection replaces the target of the transition.\<close>

definition reject_override ::
  "workflow \<Rightarrow> string \<Rightarrow> workflow_transition \<Rightarrow> exn + workflow_transition"
where
  "reject_override wkf act transition =
     (if act = ''Reject''
      then (case states wkf of
              [] \<Rightarrow> Inl (Exn IndexError (Some ''list index out of range''))
            | s0 # _ \<Rightarrow> Inr (transition\<lparr>next_state := Some (state s0)\<rparr>))
      else Inr transition)"

text \<open>Lines 210 and 211: the first row of \<^verbatim>\<open>workflow.states\<close> with the given state.\<close>

definition find_state :: "workflow \<Rightarrow> string option \<Rightarrow> exn + workflow_document_state" where
  "find_state wkf st =
     (case filter (\<lambda>d. Some (state d) = st) (states wkf) of
        [] \<Rightarrow> Inl (Exn IndexError (Some ''list index out of range''))
      | ns # _ \<Rightarrow> Inr ns)"

text \<open>
  Lines 201 to 229, the state-advancing branch. The result is the exception raised if any, the
  document object as the branch leaves it, and the world.
\<close>

definition advance_state ::
  "env \<Rightarrow> world \<Rightarrow> workflow \<Rightarrow> document \<Rightarrow> string \<Rightarrow> string option \<Rightarrow> workflow_transition
     \<Rightarrow> exn option \<times> document \<times> world"
where
  "advance_state env w wkf doc act comment transition =
     (let doc1 = doc\<lparr>workflow_action := Some act, workflow_comment := comment\<rparr> in
      case reject_override wkf act transition of
        Inl e \<Rightarrow> (Some e, doc1, w)
      | Inr transition \<Rightarrow>
          (let doc2 = doc_set doc1 (workflow_state_field wkf) (next_state transition) in
           case find_state wkf (next_state transition) of
             Inl e \<Rightarrow> (Some e, doc2, w)
           | Inr ns \<Rightarrow> enter_state env w doc2 ns comment))"

definition is_pre_check_action :: "string option \<Rightarrow> bool" where
  "is_pre_check_action action_source =
     (truthy action_source \<and> the action_source \<in> {''Pre-Check'', ''Add Additional Check''})"

text \<open>Lines 192 to 199, the branch that does not advance the state.\<close>

definition complete_only ::
  "env \<Rightarrow> world \<Rightarrow> workflow \<Rightarrow> document \<Rightarrow> string \<Rightarrow> string \<Rightarrow> string option
     \<Rightarrow> string option \<Rightarrow> string option \<Rightarrow> string option
     \<Rightarrow> exn option \<times> document \<times> world"
where
  "complete_only env w wkf doc user act possible_actions action_source previous_user comment =
     (let w1 = update_completed_workflow_actions w doc user act;
          msg = (if is_pre_check_action action_source then ''Pre-check''
                 else ''Multi User Parallel Approval'');
          w2 = add_comment w1 doc ''Workflow''
                 (msg @ '' action, '' @ act @ '' by '' @ user @ '' with comment '' @ py_str comment)
      in
      if is_pre_check_action action_source \<and> truthy previous_user
      then (None, doc,
            create_workflow_actions env w2 wkf doc previous_user possible_actions [] user comment)
      else (None, doc, w2))"

text \<open>
  \<^verbatim>\<open>apply_workflow\<close>. \<open>user\<close> is \<^verbatim>\<open>frappe.session.user\<close>. The result is the exception raised if any (\<open>None\<close>: the document is returned), the document
  object as the call leaves it, and the world.
\<close>

definition apply_workflow ::
  "env \<Rightarrow> world \<Rightarrow> document \<Rightarrow> string \<Rightarrow> string option \<Rightarrow> string option
     \<Rightarrow> string option \<Rightarrow> string option \<Rightarrow> string option \<Rightarrow> string option
     \<Rightarrow> exn option \<times> document \<times> world"
where
  "apply_workflow env w doc act transition_name possible_actions next_user action_source
       previous_user comment =
     (case get_workflow env w doc of
        (Inl e, w0) \<Rightarrow> (Some e, doc, w0)
      | (Inr None, w0) \<Rightarrow>
          (case throw w0 ''No workflow assigned to the current document!'' ValidationError of
             (e, w') \<Rightarrow> (Some e, doc, w'))
      | (Inr (Some wkf), w0) \<Rightarrow>
          (let user = session_user env in
           if act \<in> {''Forward'', ''Add Additional Check''}
           then
             (let w1 = update_completed_workflow_actions w0 doc user act;
                  w2 = create_workflow_actions env w1 wkf doc next_user possible_actions act user
                         comment;
                  action_msg = (if act = ''Forward'' then ''Forwarded''
                                else ''Requested Additional Check'')
              in (None, doc,
                  add_comment w2 doc ''Workflow''
                    (action_msg @ '' by '' @ user @ '' to '' @ py_str next_user)))
           else
             (case resolve_transition env w0 doc wkf act transition_name of
                (Inl e, w1) \<Rightarrow> (Some e, doc, w1)
              | (Inr None, w1) \<Rightarrow>
                  (case throw w1 ''Not a valid Workflow Action'' WorkflowTransitionError of
                     (e, w') \<Rightarrow> (Some e, doc, w'))
              | (Inr (Some transition), w1) \<Rightarrow>
                  if \<not> has_approval_access user doc transition
                  then (case throw w1 ''Self approval is not allowed'' ValidationError of
                          (e, w') \<Rightarrow> (Some e, doc, w'))
                  else if (multi_user_action_mode transition = ''All''
                           \<and> other_user_open_action_count env w1 doc (from_state transition) user
                               > 0)
                          \<or> is_pre_check_action action_source
                  then complete_only env w1 wkf doc user act possible_actions action_source
                         previous_user comment
                  else advance_state env w1 wkf doc act comment transition)))"

subsection \<open>bulk_workflow_approval\<close>

text \<open>\<^verbatim>\<open>e.__class__.__name__\<close>.\<close>

fun class_name :: "exn_class \<Rightarrow> string" where
  "class_name WorkflowStateError = ''WorkflowStateError''"
| "class_name WorkflowTransitionError = ''WorkflowTransitionError''"
| "class_name WorkflowPermissionError = ''WorkflowPermissionError''"
| "class_name ValidationError = ''ValidationError''"
| "class_name PermissionError = ''PermissionError''"
| "class_name DoesNotExistError = ''DoesNotExistError''"
| "class_name IndexError = ''IndexError''"
| "class_name AttributeError = ''AttributeError''"
| "class_name (OtherError n) = n"

text \<open>Lines 356 to 358: the message built from an exception that logged nothing.\<close>

fun exception_message :: "exn \<Rightarrow> string" where
  "exception_message (Exn c None) = class_name c"
| "exception_message (Exn c (Some a)) = class_name c @ '' : '' @ a"

text \<open>The dictionaries \<^verbatim>\<open>{"docname": .., "message": ..}\<close> of the two logs.\<close>

record log_entry =
  entry_docname :: string
  entry_message :: "string option"

text \<open>
  A \<^verbatim>\<open>defaultdict(list)\<close> keyed by document name, in insertion order.
  \<open>dict_append d k v\<close> is \<^verbatim>\<open>d[k].append(v)\<close>.
\<close>

type_synonym transaction_log = "(string \<times> log_entry list) list"

fun dict_append :: "transaction_log \<Rightarrow> string \<Rightarrow> log_entry \<Rightarrow> transaction_log" where
  "dict_append [] k v = [(k, [v])]"
| "dict_append ((k', vs) # rest) k v =
     (if k' = k then (k', vs @ [v]) # rest else (k', vs) # dict_append rest k v)"

text \<open>
  \<^verbatim>\<open>frappe.get_doc(doctype, docname)\<close>: the persisted document, or
  \<^verbatim>\<open>frappe.DoesNotExistError\<close> thrown.
\<close>

definition get_doc :: "world \<Rightarrow> string \<Rightarrow> string \<Rightarrow> (exn + document) \<times> world" where
  "get_doc w dt n =
     (case docs (db w) (dt, n) of
        None \<Rightarrow> (case throw w (dt @ '' '' @ n @ '' not found'') DoesNotExistError of
                   (e, w') \<Rightarrow> (Inl e, w'))
      | Some d \<Rightarrow> (Inr d, w))"

definition show_progress :: "world \<Rightarrow> string list \<Rightarrow> string \<Rightarrow> nat \<Rightarrow> string \<Rightarrow> world" where
  "show_progress w docnames msg i description =
     (let n = length docnames in
      if n \<ge> 5
      then w\<lparr>progress_log := progress_log w @ [((i * 100, n), msg, description)]\<rparr>
      else w)"

text \<open>\<^verbatim>\<open>frappe.log_error(traceback, title)\<close>; the title is kept.\<close>

definition log_error :: "world \<Rightarrow> string \<Rightarrow> world" where
  "log_error w title = w\<lparr>error_log := error_log w @ [title]\<rparr>"

text \<open>
  Lines 349 to 352, the body of \<^verbatim>\<open>try\<close>: the exception that left it, if any, and the world.
\<close>

definition attempt ::
  "env \<Rightarrow> world \<Rightarrow> string list \<Rightarrow> string \<Rightarrow> string \<Rightarrow> string option \<Rightarrow> nat \<Rightarrow> string
     \<Rightarrow> exn option \<times> world"
where
  "attempt env w docnames dt act transition idx docname =
     (let w1 = show_progress w docnames (''Applying: '' @ act) idx docname in
      case get_doc w1 dt docname of
        (Inl e, w2) \<Rightarrow> (Some e, w2)
      | (Inr d, w2) \<Rightarrow>
          (case apply_workflow env w2 d act transition None None None None None of
             (Some e, d', w3) \<Rightarrow> (Some e, w3)
           | (None, d', w3) \<Rightarrow> (None, db_commit w3)))"

text \<open>
  Lines 367 to 375, the loop over \<^verbatim>\<open>frappe.get_message_log()\<close>: \<open>ml\<close> is \<^verbatim>\<open>frappe.message_log\<close>,
  which loses its last element at every step.
\<close>

fun log_messages ::
  "string \<Rightarrow> message list \<Rightarrow> message list \<times> transaction_log \<times> transaction_log
     \<Rightarrow> message list \<times> transaction_log \<times> transaction_log"
where
  "log_messages docname [] (ml, failed, successful) = (ml, failed, successful)"
| "log_messages docname (m # ms) (ml, failed, successful) =
     (let message_dict = \<lparr>entry_docname = docname, entry_message = Some (msg_text m)\<rparr> in
      if raise_exception m
      then log_messages docname ms (butlast ml, dict_append failed docname message_dict, successful)
      else log_messages docname ms (butlast ml, failed, dict_append successful docname message_dict))"

text \<open>
  Lines 365 to 377, the \<^verbatim>\<open>finally\<close> clause; \<open>message_dict_set\<close> says that the \<^verbatim>\<open>except\<close> clause
  has filled \<^verbatim>\<open>message_dict\<close>.
\<close>

definition finally_clause ::
  "string \<Rightarrow> bool \<Rightarrow> world \<times> transaction_log \<times> transaction_log
     \<Rightarrow> world \<times> transaction_log \<times> transaction_log"
where
  "finally_clause docname message_dict_set st =
     (case st of (w, failed, successful) \<Rightarrow>
        if \<not> message_dict_set
        then (if message_log w \<noteq> []
              then (case log_messages docname (message_log w) (message_log w, failed, successful) of
                      (ml, failed', successful') \<Rightarrow> (w\<lparr>message_log := ml\<rparr>, failed', successful'))
              else (w, failed,
                    dict_append successful docname
                      \<lparr>entry_docname = docname, entry_message = None\<rparr>))
        else (w, failed, successful))"

text \<open>Lines 347 to 377, one turn of the loop of \<^verbatim>\<open>bulk_workflow_approval\<close>.\<close>

definition process_item ::
  "env \<Rightarrow> string list \<Rightarrow> string \<Rightarrow> string \<Rightarrow> string option \<Rightarrow> nat \<times> string
     \<Rightarrow> world \<times> transaction_log \<times> transaction_log
     \<Rightarrow> world \<times> transaction_log \<times> transaction_log"
where
  "process_item env docnames dt act transition item st =
     (case (item, st) of ((idx, docname), (w, failed, successful)) \<Rightarrow>
        (case attempt env w docnames dt act transition idx docname of
           (None, w1) \<Rightarrow> finally_clause docname False (w1, failed, successful)
         | (Some e, w1) \<Rightarrow>
             (let logged_nothing = (message_log w1 = []);
                  failed1 = (if logged_nothing
                             then dict_append failed docname
                                    \<lparr>entry_docname = docname,
                                     entry_message = Some (exception_message e)\<rparr>
                             else failed);
                  w2 = log_error (db_rollback w1)
                         (''Workflow '' @ act @ '' threw an error for '' @ dt @ '' '' @ docname)
              in finally_clause docname logged_nothing (w2, failed1, successful))))"

text \<open>The loop: \<^verbatim>\<open>enumerate(docnames, 1)\<close>, from the state after \<^verbatim>\<open>frappe.clear_messages()\<close>.\<close>

definition bulk_loop ::
  "env \<Rightarrow> world \<Rightarrow> string list \<Rightarrow> string \<Rightarrow> string \<Rightarrow> string option \<Rightarrow> (nat \<times> string) list
     \<Rightarrow> world \<times> transaction_log \<times> transaction_log"
where
  "bulk_loop env w docnames dt act transition items =
     foldl (\<lambda>st item. process_item env docnames dt act transition item st)
       (clear_messages w, [], []) items"

text \<open>Lines 379 to 384.\<close>

definition bulk_indicator :: "transaction_log \<Rightarrow> transaction_log \<Rightarrow> string" where
  "bulk_indicator failed successful =
     (if failed \<noteq> [] \<and> successful \<noteq> [] then ''orange''
      else if failed \<noteq> [] then ''red''
      else ''green'')"

text \<open>The inner loops of \<^verbatim>\<open>print_workflow_log\<close>.\<close>

fun log_html :: "log_entry list \<Rightarrow> string" where
  "log_html [] = []"
| "log_html (l # ls) =
     (if truthy (entry_message l)
      then ''<div class='' @ [CHR 0x27] @ ''small text-muted'' @ [CHR 0x27] @ '' style=''
           @ [CHR 0x27] @ ''padding:2.5px'' @ [CHR 0x27] @ ''>'' @ the (entry_message l) @ ''</div>''
      else []) @ log_html ls"

fun docs_html :: "env \<Rightarrow> string \<Rightarrow> transaction_log \<Rightarrow> string" where
  "docs_html env dt [] = []"
| "docs_html env dt ((doc, logs) # rest) =
     (if length logs \<noteq> 0
      then ''<details><summary>'' @ get_link_to_form env dt doc @ ''</summary>''
           @ log_html logs @ ''</details>''
      else ''<div>'' @ doc @ ''</div>'') @ docs_html env dt rest"

definition print_workflow_log ::
  "env \<Rightarrow> world \<Rightarrow> transaction_log \<Rightarrow> string \<Rightarrow> string \<Rightarrow> string \<Rightarrow> world"
where
  "print_workflow_log env w messages ttl dt ind =
     (if messages \<noteq> []
      then msgprint w (''<h4>'' @ ttl @ ''</h4>'' @ docs_html env dt messages)
             (Some ''Workflow Status'') (Some ind)
      else w)"

text \<open>
  \<^verbatim>\<open>bulk_workflow_approval\<close>; \<open>docnames\<close> is the list \<^verbatim>\<open>json.loads\<close> returns. The function returns
  nothing: its result is the world, whose message log carries the report.
\<close>

definition bulk_workflow_approval ::
  "env \<Rightarrow> world \<Rightarrow> string list \<Rightarrow> string \<Rightarrow> string \<Rightarrow> string option \<Rightarrow> world"
where
  "bulk_workflow_approval env w docnames dt act transition =
     (case bulk_loop env w docnames dt act transition
             (zip [1..<Suc (length docnames)] docnames) of
        (w1, failed, successful) \<Rightarrow>
          (let ind = bulk_indicator failed successful;
               w2 = print_workflow_log env w1 failed ''Failed Transactions'' dt ind
           in print_workflow_log env w2 successful ''Successful Transactions'' dt ind))"

subsection \<open>The legality table as the design states it\<close>

text \<open>
  The table of the design document, written down independently of \<^verbatim>\<open>apply_workflow\<close>:
  Draft(0) to Draft(0) is save, Draft(0) to Submitted(1) is submit, Submitted(1) to
  Submitted(1) is save, Submitted(1) to Cancelled(2) is cancel, and no other pair is listed.
\<close>

datatype lifecycle_method = Save | Submit | Cancel

definition spec_lifecycle_table :: "int \<times> int \<Rightarrow> lifecycle_method option" where
  "spec_lifecycle_table =
     map_of [((0, 0), Save), ((0, 1), Submit), ((1, 1), Save), ((1, 2), Cancel)]"

fun call_lifecycle :: "env \<Rightarrow> lifecycle_method \<Rightarrow> document \<Rightarrow> database \<Rightarrow> lifecycle_result" where
  "call_lifecycle env Save = save env"
| "call_lifecycle env Submit = submit env"
| "call_lifecycle env Cancel = cancel env"

subsection \<open>Outcomes of a bulk run\<close>

text \<open>
  Notions the report of a bulk run is measured against; none of them is part of the module.
  An item \<^emph>\<open>succeeds\<close> when the body of \<^verbatim>\<open>try\<close> ends without an exception. \<open>run_outcomes\<close> lists,
  in input order, whether each item succeeds, every item starting from the state its
  predecessors left. \<open>entries log n\<close> is \<^verbatim>\<open>log[n]\<close>, empty for a missing key. A run is
  \<^emph>\<open>plainly reported\<close> when every failing item leaves only messages flagged
  \<^verbatim>\<open>raise_exception\<close> in the message log and every succeeding item only messages without the
  flag.
\<close>

fun run_outcomes ::
  "env \<Rightarrow> string list \<Rightarrow> string \<Rightarrow> string \<Rightarrow> string option \<Rightarrow> (nat \<times> string) list
     \<Rightarrow> world \<times> transaction_log \<times> transaction_log \<Rightarrow> bool list"
where
  "run_outcomes env docnames dt act transition [] st = []"
| "run_outcomes env docnames dt act transition (item # items) st =
     (fst (attempt env (fst st) docnames dt act transition (fst item) (snd item)) = None)
     # run_outcomes env docnames dt act transition items
         (process_item env docnames dt act transition item st)"

fun plainly_reported ::
  "env \<Rightarrow> string list \<Rightarrow> string \<Rightarrow> string \<Rightarrow> string option \<Rightarrow> (nat \<times> string) list
     \<Rightarrow> world \<times> transaction_log \<times> transaction_log \<Rightarrow> bool"
where
  "plainly_reported env docnames dt act transition [] st = True"
| "plainly_reported env docnames dt act transition (item # items) st =
     ((case attempt env (fst st) docnames dt act transition (fst item) (snd item) of
         (None, w1) \<Rightarrow> list_all (\<lambda>m. \<not> raise_exception m) (message_log w1)
       | (Some e, w1) \<Rightarrow> list_all raise_exception (message_log w1))
      \<and> plainly_reported env docnames dt act transition items
          (process_item env docnames dt act transition item st))"

definition entries :: "transaction_log \<Rightarrow> string \<Rightarrow> log_entry list" where
  "entries log n = (case map_of log n of None \<Rightarrow> [] | Some es \<Rightarrow> es)"

definition message_entry :: "string \<Rightarrow> message \<Rightarrow> log_entry" where
  "message_entry docname m = \<lparr>entry_docname = docname, entry_message = Some (msg_text m)\<rparr>"

text \<open>\<open>append_all n log es\<close> is \<^verbatim>\<open>log[n].append(e)\<close> for every \<open>e\<close> of \<open>es\<close> in turn.\<close>

definition append_all :: "string \<Rightarrow> transaction_log \<Rightarrow> log_entry list \<Rightarrow> transaction_log" where
  "append_all n d es = foldl (\<lambda>d e. dict_append d n e) d es"

text \<open>
  The report: what the two calls of \<^verbatim>\<open>print_workflow_log\<close> add to an empty message log.
\<close>

definition workflow_status :: "env \<Rightarrow> string \<Rightarrow> string \<Rightarrow> transaction_log \<Rightarrow> string \<Rightarrow> message" where
  "workflow_status env dt ttl log ind =
     \<lparr>msg_text = ''<h4>'' @ ttl @ ''</h4>'' @ docs_html env dt log, raise_exception = False,
      msg_title = Some ''Workflow Status'', indicator = Some ind\<rparr>"

definition bulk_report :: "env \<Rightarrow> string \<Rightarrow> transaction_log \<Rightarrow> transaction_log \<Rightarrow> message list" where
  "bulk_report env dt failed successful =
     (if failed \<noteq> []
      then [workflow_status env dt ''Failed Transactions'' failed
              (bulk_indicator failed successful)]
      else [])
     @ (if successful \<noteq> []
        then [workflow_status env dt ''Successful Transactions'' successful
                (bulk_indicator failed successful)]
        else [])"

subsection \<open>A concrete installation\<close>

text \<open>
  An Expense document type under a workflow with the states Draft, Review, Approved and Void.
  The evaluator knows the expressions \<^verbatim>\<open>True\<close> and \<^verbatim>\<open>False\<close>; the lifecycle methods store the
  document, \<^verbatim>\<open>submit\<close> and \<^verbatim>\<open>cancel\<close> after setting the status.
\<close>

definition example_states :: "workflow_document_state list" where
  "example_states =
     [\<lparr>state = ''Draft'', doc_status = ''0'', update_field = None, update_value = None\<rparr>,
      \<lparr>state = ''Review'', doc_status = ''0'', update_field = None, update_value = None\<rparr>,
      \<lparr>state = ''Approved'', doc_status = ''1'',
        update_field = Some ''approved'', update_value = Some ''1''\<rparr>,
      \<lparr>state = ''Void'', doc_status = ''2'', update_field = None, update_value = None\<rparr>]"

definition example_transition ::
  "string \<Rightarrow> string \<Rightarrow> string \<Rightarrow> int \<Rightarrow> string \<Rightarrow> workflow_transition"
where
  "example_transition src act dst self_ok mode =
     \<lparr>from_state = Some src, action = Some act, next_state = Some dst, condition = None,
      allow_self_approval = self_ok, multi_user_action_mode = mode\<rparr>"

definition example_transitions :: "workflow_transition list" where
  "example_transitions =
     [example_transition ''Draft'' ''Submit for Review'' ''Review'' 1 ''Any'',
      example_transition ''Review'' ''Approve'' ''Approved'' 0 ''All'',
      (example_transition ''Review'' ''Escalate'' ''Void'' 1 ''Any'')\<lparr>condition := Some ''False''\<rparr>,
      example_transition ''Review'' ''Reject'' ''Void'' 1 ''Any'']"

definition example_twice :: "workflow_transition list" where
  "example_twice =
     [example_transition ''Review'' ''Approve'' ''Approved'' 1 ''Any'',
      example_transition ''Review'' ''Approve'' ''Draft'' 1 ''Any'']"

definition example_discard :: "workflow_transition list" where
  "example_discard = [example_transition ''Draft'' ''Discard'' ''Void'' 1 ''Any'']"

definition example_workflow :: "workflow_transition list \<Rightarrow> workflow" where
  "example_workflow ts =
     \<lparr>workflow_name = ''Approval'', workflow_state_field = ''workflow_state'',
      states = example_states, transitions = ts\<rparr>"

definition example_doc :: "string \<Rightarrow> document" where
  "example_doc st =
     \<lparr>doctype = ''Expense'', name = ''EXP-1'', owner = Some ''alice'', docstatus = 0,
      islocal = False, workflow_def = Some ''Approval'', company = None,
      workflow_action = None, workflow_comment = None,
      field_values = [''workflow_state'' \<mapsto> st]\<rparr>"

definition example_store :: "document \<Rightarrow> database \<Rightarrow> lifecycle_result" where
  "example_store d dbs =
     \<lparr>lr_messages = [], lr_raised = None, lr_doc = d,
      lr_db = dbs\<lparr>docs := (docs dbs)((doctype d, name d) \<mapsto> d)\<rparr>\<rparr>"

definition example_env :: "string \<Rightarrow> workflow \<Rightarrow> env" where
  "example_env user wkf =
     \<lparr>session_user = user,
      safe_eval = (\<lambda>w c d. if c = ''True'' then Inr True
                           else if c = ''False'' then Inr False
                           else Inl (Exn (OtherError ''NameError'') None)),
      has_permission = (\<lambda>w d. True),
      cint = (\<lambda>s. if s = ''1'' then 1 else if s = ''2'' then 2 else 0),
      workflow_assignments = (\<lambda>dt. []),
      get_workflow_doc = (\<lambda>n. if n = ''Approval'' then Some wkf else None),
      get_transition_doc = (\<lambda>n. if n = ''TR-0001''
                                 then Some (example_transition ''Draft'' ''Approve'' ''Approved'' 0 ''All'')
                                 else None),
      cache_key = (\<lambda>d. doctype d @ ''/'' @ name d),
      save = example_store,
      submit = (\<lambda>d. example_store (d\<lparr>docstatus := 1\<rparr>)),
      cancel = (\<lambda>d. example_store (d\<lparr>docstatus := 2\<rparr>)),
      new_action_records = (\<lambda>wkf d target possible src user comment. []),
      get_link_to_form = (\<lambda>dt n. n)\<rparr>"

definition example_database :: "document list \<Rightarrow> workflow_action_record list \<Rightarrow> database" where
  "example_database ds acts =
     \<lparr>docs = map_of (map (\<lambda>d. ((doctype d, name d), d)) ds), actions = acts, comments = []\<rparr>"

definition example_world :: "document list \<Rightarrow> workflow_action_record list \<Rightarrow> world" where
  "example_world ds acts =
     \<lparr>db = example_database ds acts, committed = example_database ds acts, message_log = [],
      workflow_cache = Map.empty, error_log = [], progress_log = []\<rparr>"

definition example_action :: "string \<Rightarrow> string \<Rightarrow> workflow_action_record" where
  "example_action st user =
     \<lparr>reference_doctype = ''Expense'', reference_name = ''EXP-1'', wa_workflow_state = Some st,
      wa_user = user, wa_status = Open, wa_actions = None, wa_action_source = ''Normal'',
      wa_previous_user = None\<rparr>"

text \<open>
  A \<^verbatim>\<open>save\<close> whose validation prints a note with \<^verbatim>\<open>frappe.msgprint\<close> and then stops with
  \<^verbatim>\<open>frappe.throw\<close>.
\<close>

definition example_failing_save :: "document \<Rightarrow> database \<Rightarrow> lifecycle_result" where
  "example_failing_save d dbs =
     \<lparr>lr_messages =
        [\<lparr>msg_text = ''Amount exceeds the budget'', raise_exception = False, msg_title = None,
          indicator = None\<rparr>,
         \<lparr>msg_text = ''Cost center is required'', raise_exception = True, msg_title = None,
          indicator = Some ''red''\<rparr>],
      lr_raised = Some (Exn ValidationError (Some ''Cost center is required'')),
      lr_doc = d, lr_db = dbs\<rparr>"

definition example_batch :: "document list" where
  "example_batch =
     [example_doc ''Draft'',
      (example_doc ''Approved'')\<lparr>name := ''EXP-2''\<rparr>,
      (example_doc ''Draft'')\<lparr>name := ''EXP-3''\<rparr>]"

section \<open>Properties\<close>

lemmas example_defs = example_transitions_def example_transition_def example_workflow_def
  example_doc_def example_env_def example_world_def example_database_def example_states_def
  example_store_def example_action_def

lemmas model_defs = get_workflow_def fetch_workflow_def get_transitions_def
  resolve_transition_def apply_workflow_def advance_state_def enter_state_def
  set_update_field_def reject_override_def find_state_def after_lifecycle_def
  complete_only_def is_pre_check_action_def has_approval_access_def
  other_user_open_action_count_def update_completed_workflow_actions_def
  create_workflow_actions_def evaluate_condition_def truthy_def py_str_def throw_def
  add_comment_def doc_set_def is_new_def start_transition_def msgprint_def Let_def

subsection \<open>The transition resolver\<close>

lemma collect_transitions_result:
  "collect_transitions env w doc cs ts acc = Inr r \<Longrightarrow>
     r = acc @ filter (\<lambda>t. from_state t = cs
                          \<and> evaluate_condition env w (condition t) doc = Inr True) ts"
proof (induction ts arbitrary: acc)
  case Nil
  then show ?case by simp
next
  case (Cons t ts)
  show ?case
  proof (cases "from_state t = cs")
    case False
    with Cons show ?thesis by simp
  next
    case True
    show ?thesis
    proof (cases "evaluate_condition env w (condition t) doc")
      case (Inl e)
      with Cons.prems True show ?thesis by simp
    next
      case (Inr b)
      show ?thesis
      proof (cases b)
        case True
        with Cons.prems \<open>from_state t = cs\<close> Inr
        have "collect_transitions env w doc cs ts (acc @ [t]) = Inr r" by simp
        from Cons.IH [OF this] True Inr \<open>from_state t = cs\<close> show ?thesis by simp
      next
        case False
        with Cons.prems \<open>from_state t = cs\<close> Inr
        have "collect_transitions env w doc cs ts acc = Inr r" by simp
        from Cons.IH [OF this] False Inr show ?thesis by simp
      qed
    qed
  qed
qed

lemma collect_transitions_returns:
  "\<forall>t\<in>set ts. from_state t = cs \<longrightarrow> (\<exists>b. evaluate_condition env w (condition t) doc = Inr b) \<Longrightarrow>
     collect_transitions env w doc cs ts acc =
       Inr (acc @ filter (\<lambda>t. from_state t = cs
                              \<and> evaluate_condition env w (condition t) doc = Inr True) ts)"
  by (induction ts arbitrary: acc) (auto split: if_splits sum.splits)

text \<open>
  C7. For a persisted document that the caller may read and whose state field holds a
  non-empty state \<open>cs\<close>: whenever \<^verbatim>\<open>get_transitions\<close> returns, it returns exactly the transitions
  of the workflow whose source state is \<open>cs\<close> and whose condition evaluates true, in the order
  of the definition, and leaves the world as it was; and it does return that list (possibly
  empty) whenever no condition of a transition leaving \<open>cs\<close> raises.
\<close>

theorem get_transitions_filter:
  assumes "\<not> is_new doc" and "has_permission env w doc"
    and "field_values doc (workflow_state_field wkf) = Some cs" and "cs \<noteq> []"
  shows "(get_transitions env w doc (Some wkf) raise_exc = (Inr ts, w') \<longrightarrow>
            w' = w \<and> ts = filter (\<lambda>t. from_state t = Some cs
                            \<and> evaluate_condition env w (condition t) doc = Inr True)
                          (transitions wkf))
       \<and> ((\<forall>t\<in>set (transitions wkf). from_state t = Some cs \<longrightarrow>
              (\<exists>b. evaluate_condition env w (condition t) doc = Inr b)) \<longrightarrow>
            get_transitions env w doc (Some wkf) raise_exc =
              (Inr (filter (\<lambda>t. from_state t = Some cs
                            \<and> evaluate_condition env w (condition t) doc = Inr True)
                      (transitions wkf)), w))"
  using assms
  by (auto simp: get_transitions_def truthy_def Let_def collect_transitions_returns
      split: sum.splits dest: collect_transitions_result)

theorem get_transitions_filter_witness:
  "\<not> is_new (example_doc ''Review'')
   \<and> field_values (example_doc ''Review'')
        (workflow_state_field (example_workflow example_transitions)) = Some ''Review''
   \<and> get_transitions (example_env ''bob'' (example_workflow example_transitions))
        (example_world [] []) (example_doc ''Review'')
        (Some (example_workflow example_transitions)) False =
       (Inr [example_transition ''Review'' ''Approve'' ''Approved'' 0 ''All'',
             example_transition ''Review'' ''Reject'' ''Void'' 1 ''Any''], example_world [] [])"
proof -
  let ?e = "example_env ''bob'' (example_workflow example_transitions)"
  let ?d = "example_doc ''Review''"
  let ?k = "example_workflow example_transitions"
  have h1: "\<not> is_new ?d" by (simp add: is_new_def example_doc_def)
  have h2: "has_permission ?e (example_world [] []) ?d" by (simp add: example_env_def)
  have h3: "field_values ?d (workflow_state_field ?k) = Some ''Review''"
    by (simp add: example_doc_def example_workflow_def)
  have h4: "''Review'' \<noteq> []" by simp
  have h5: "\<forall>t\<in>set (transitions ?k). from_state t = Some ''Review'' \<longrightarrow>
              (\<exists>b. evaluate_condition ?e (example_world [] []) (condition t) ?d = Inr b)"
    by (auto simp: example_defs evaluate_condition_def truthy_def)
  from get_transitions_filter [OF h1 h2 h3 h4, of False] h5
  have "get_transitions ?e (example_world [] []) ?d (Some ?k) False =
       (Inr (filter (\<lambda>t. from_state t = Some ''Review''
                            \<and> evaluate_condition ?e (example_world [] []) (condition t) ?d = Inr True)
                      (transitions ?k)), example_world [] [])"
    by blast
  then show ?thesis using h1 h3
    by (simp add: example_transitions_def example_transition_def example_workflow_def
          evaluate_condition_def truthy_def example_env_def)
qed

text \<open>
  C9. For a new document \<^verbatim>\<open>get_transitions\<close> returns the empty list and raises nothing,
  whatever the workflow argument, the state field, the permission service and the flag are;
  the world is untouched.
\<close>

theorem get_transitions_new:
  "is_new doc \<Longrightarrow> get_transitions env w doc workflow_arg raise_exc = (Inr [], w)"
  by (simp add: get_transitions_def)

theorem get_transitions_new_witness:
  "is_new ((example_doc ''Draft'')\<lparr>islocal := True\<rparr>)
   \<and> get_transitions (example_env ''alice'' (example_workflow [])) (example_world [] [])
       ((example_doc ''Draft'')\<lparr>islocal := True\<rparr>) None True = (Inr [], example_world [] [])"
proof -
  have h: "is_new ((example_doc ''Draft'')\<lparr>islocal := True\<rparr>)" by (simp add: is_new_def)
  from get_transitions_new [OF h] h show ?thesis by simp
qed

subsection \<open>The authorization check\<close>

text \<open>
  C6. \<^verbatim>\<open>has_approval_access\<close> holds exactly when the user is the administrator, or the
  transition allows self-approval, or the user is not the owner of the document; it fails
  exactly for an owner who is not the administrator on a transition without self-approval.
\<close>

theorem has_approval_access_iff:
  "has_approval_access user doc transition =
     (user = ''Administrator'' \<or> allow_self_approval transition \<noteq> 0 \<or> Some user \<noteq> owner doc)
   \<and> (\<not> has_approval_access user doc transition) =
     (user \<noteq> ''Administrator'' \<and> owner doc = Some user \<and> allow_self_approval transition = 0)"
  by (auto simp: has_approval_access_def)

theorem has_approval_access_iff_witness:
  "\<not> has_approval_access ''alice'' (example_doc ''Review'')
       (example_transition ''Review'' ''Approve'' ''Approved'' 0 ''All'')
   \<and> has_approval_access ''bob'' (example_doc ''Review'')
       (example_transition ''Review'' ''Approve'' ''Approved'' 0 ''All'')
   \<and> has_approval_access ''alice'' (example_doc ''Review'')
       (example_transition ''Review'' ''Reject'' ''Void'' 1 ''Any'')
   \<and> has_approval_access ''Administrator'' ((example_doc ''Review'')\<lparr>owner := Some ''Administrator''\<rparr>)
       (example_transition ''Review'' ''Approve'' ''Approved'' 0 ''All'')"
  using
    has_approval_access_iff [of "''alice''" "example_doc ''Review''"
      "example_transition ''Review'' ''Approve'' ''Approved'' 0 ''All''"]
    has_approval_access_iff [of "''bob''" "example_doc ''Review''"
      "example_transition ''Review'' ''Approve'' ''Approved'' 0 ''All''"]
    has_approval_access_iff [of "''alice''" "example_doc ''Review''"
      "example_transition ''Review'' ''Reject'' ''Void'' 1 ''Any''"]
    has_approval_access_iff [of "''Administrator''"
      "(example_doc ''Review'')\<lparr>owner := Some ''Administrator''\<rparr>"
      "example_transition ''Review'' ''Approve'' ''Approved'' 0 ''All''"]
  by (simp add: example_doc_def example_transition_def)

subsection \<open>What apply_workflow leaves alone before it acts\<close>

text \<open>
  Finding the workflow and the transition reads the store; only the cache and the message
  log can change.
\<close>

lemma throw_db [simp]: "db (snd (throw w m c)) = db w" "committed (snd (throw w m c)) = committed w"
  by (simp_all add: throw_def)

lemma fetch_workflow_db:
  "fetch_workflow env w n = (r, w') \<Longrightarrow> db w' = db w \<and> committed w' = committed w"
  by (auto simp: fetch_workflow_def throw_def split: option.splits)

lemma assigned_workflow_db:
  "assigned_workflow env w doc as = (r, w') \<Longrightarrow> db w' = db w \<and> committed w' = committed w"
  by (induction as) (auto split: sum.splits if_splits prod.splits dest: fetch_workflow_db)

lemma get_workflow_db:
  "get_workflow env w doc = (r, w') \<Longrightarrow> db w' = db w \<and> committed w' = committed w"
  by (auto simp: get_workflow_def split: option.splits if_splits sum.splits prod.splits
      dest: fetch_workflow_db assigned_workflow_db)

lemma get_transitions_db:
  "get_transitions env w doc wa rx = (r, w') \<Longrightarrow> db w' = db w \<and> committed w' = committed w"
  by (auto simp: get_transitions_def throw_def Let_def
      split: option.splits if_splits sum.splits prod.splits dest: get_workflow_db)

lemma resolve_transition_db:
  "resolve_transition env w doc wkf act tn = (r, w') \<Longrightarrow> db w' = db w \<and> committed w' = committed w"
  by (auto simp: resolve_transition_def throw_def
      split: option.splits if_splits sum.splits prod.splits list.splits dest: get_transitions_db)

lemma get_transitions_given:
  assumes "get_transitions env w doc (Some wkf) rx = (Inr ts, w1)"
  shows "w1 = w"
    and "\<forall>t\<in>set ts. evaluate_condition env w (condition t) doc = Inr True"
    and "\<forall>t\<in>set ts. from_state t = field_values doc (workflow_state_field wkf)"
  using assms
  by (auto simp: get_transitions_def throw_def Let_def
      split: option.splits if_splits sum.splits prod.splits dest!: collect_transitions_result)

lemma find_transition_last:
  "\<forall>t\<in>set ts. evaluate_condition env w (condition t) doc = Inr True \<Longrightarrow>
   find_transition env w doc act ts tr =
     Inr (if filter (\<lambda>t. action t = Some act) ts = [] then tr
          else Some (last (filter (\<lambda>t. action t = Some act) ts)))"
  by (induction ts arbitrary: tr) auto

lemma apply_workflow_resolved:
  assumes "get_workflow env w doc = (Inr (Some wkf), w0)"
    and "act \<notin> {''Forward'', ''Add Additional Check''}"
    and "resolve_transition env w0 doc wkf act tn = (Inr (Some t), w1)"
    and "has_approval_access (session_user env) doc t"
  shows "apply_workflow env w doc act tn pa nu src pu c =
     (if (multi_user_action_mode t = ''All''
            \<and> 0 < other_user_open_action_count env w1 doc (from_state t) (session_user env))
          \<or> is_pre_check_action src
      then complete_only env w1 wkf doc (session_user env) act pa src pu c
      else advance_state env w1 wkf doc act c t)"
  using assms by (simp add: apply_workflow_def Let_def)

subsection \<open>Resolving the transition\<close>

text \<open>
  C4 (as the code has it). With no explicit transition and an action other than Start, Forward
  and Add Additional Check, the effective transition is the \<^emph>\<open>last\<close> transition, in the order of
  \<^verbatim>\<open>get_transitions\<close>, whose action is the requested one and whose condition holds: the loop
  assigns at every match and does not stop. When none matches, \<^verbatim>\<open>apply_workflow\<close> throws
  \<^verbatim>\<open>WorkflowTransitionError\<close> and returns the document untouched.
\<close>

theorem resolve_transition_last_match:
  assumes gw: "get_workflow env w doc = (Inr (Some wkf), w0)"
    and act: "act \<notin> {''Forward'', ''Add Additional Check'', ''Start''}"
    and tn: "\<not> truthy tn"
    and gt: "get_transitions env w0 doc (Some wkf) False = (Inr ts, w1)"
  shows "(let M = filter (\<lambda>t. action t = Some act
                           \<and> evaluate_condition env w0 (condition t) doc = Inr True) ts
         in resolve_transition env w0 doc wkf act tn =
              (Inr (if M = [] then None else Some (last M)), w0)
            \<and> (M = [] \<longrightarrow>
                 apply_workflow env w doc act tn pa nu src pu c =
                   (Some (Exn WorkflowTransitionError (Some ''Not a valid Workflow Action'')), doc,
                    snd (throw w0 ''Not a valid Workflow Action'' WorkflowTransitionError))))"
proof -
  from get_transitions_given [OF gt]
  have w1: "w1 = w0"
    and conds: "\<forall>t\<in>set ts. evaluate_condition env w0 (condition t) doc = Inr True"
    by simp_all
  have M: "filter (\<lambda>t. action t = Some act
                       \<and> evaluate_condition env w0 (condition t) doc = Inr True) ts
           = filter (\<lambda>t. action t = Some act) ts"
    using conds by (intro filter_cong) auto
  have res: "resolve_transition env w0 doc wkf act tn =
     (Inr (if filter (\<lambda>t. action t = Some act) ts = [] then None
           else Some (last (filter (\<lambda>t. action t = Some act) ts))), w0)"
    using act tn gt w1 find_transition_last [OF conds, of act None]
    by (simp add: resolve_transition_def)
  have "filter (\<lambda>t. action t = Some act) ts = [] \<Longrightarrow>
          apply_workflow env w doc act tn pa nu src pu c =
            (Some (Exn WorkflowTransitionError (Some ''Not a valid Workflow Action'')), doc,
             snd (throw w0 ''Not a valid Workflow Action'' WorkflowTransitionError))"
    using gw act res by (simp add: apply_workflow_def throw_def)
  with res M show ?thesis by (simp add: Let_def)
qed

text \<open>
  Two transitions leave Review under the action Approve, to Approved and to Draft, in this
  order; the search settles on the second and the document ends in Draft.
\<close>

theorem first_match_counterexample:
  "fst (get_transitions (example_env ''bob'' (example_workflow example_twice)) (example_world [] [])
          (example_doc ''Review'') (Some (example_workflow example_twice)) False)
     = Inr [example_transition ''Review'' ''Approve'' ''Approved'' 1 ''Any'',
            example_transition ''Review'' ''Approve'' ''Draft'' 1 ''Any'']
   \<and> fst (resolve_transition (example_env ''bob'' (example_workflow example_twice))
          (example_world [] []) (example_doc ''Review'') (example_workflow example_twice)
          ''Approve'' None)
     = Inr (Some (example_transition ''Review'' ''Approve'' ''Draft'' 1 ''Any''))
   \<and> field_values (fst (snd (apply_workflow (example_env ''bob'' (example_workflow example_twice))
          (example_world [] []) (example_doc ''Review'') ''Approve'' None None None None None None)))
        ''workflow_state'' = Some ''Draft''"
  by (simp add: model_defs example_defs example_twice_def)

theorem resolve_transition_last_match_witness:
  "fst (resolve_transition (example_env ''bob'' (example_workflow example_twice))
          (snd (get_workflow (example_env ''bob'' (example_workflow example_twice))
                  (example_world [] []) (example_doc ''Review'')))
          (example_doc ''Review'') (example_workflow example_twice) ''Approve'' None)
     = Inr (Some (example_transition ''Review'' ''Approve'' ''Draft'' 1 ''Any''))
   \<and> fst (apply_workflow (example_env ''bob'' (example_workflow example_twice))
          (example_world [] []) (example_doc ''Review'') ''Escalate'' None None None None None None)
     = Some (Exn WorkflowTransitionError (Some ''Not a valid Workflow Action''))"
proof -
  let ?K = "example_workflow example_twice"
  let ?E = "example_env ''bob'' ?K"
  let ?W = "example_world [] []"
  let ?D = "example_doc ''Review''"
  let ?V = "snd (get_workflow ?E ?W ?D)"
  have gw: "get_workflow ?E ?W ?D = (Inr (Some ?K), ?V)"
    by (simp add: model_defs example_defs)
  have a1: "''Approve'' \<notin> {''Forward'', ''Add Additional Check'', ''Start''}" by simp
  have a2: "''Escalate'' \<notin> {''Forward'', ''Add Additional Check'', ''Start''}" by simp
  have tn: "\<not> truthy None" by (simp add: truthy_def)
  have gt: "get_transitions ?E ?V ?D (Some ?K) False = (Inr example_twice, ?V)"
    by (simp add: model_defs example_defs example_twice_def)
  have m1: "filter (\<lambda>t. action t = Some ''Approve''
                        \<and> evaluate_condition ?E ?V (condition t) ?D = Inr True) example_twice
            = example_twice"
    by (simp add: example_twice_def example_transition_def evaluate_condition_def truthy_def)
  have m2: "filter (\<lambda>t. action t = Some ''Escalate''
                        \<and> evaluate_condition ?E ?V (condition t) ?D = Inr True) example_twice
            = []"
    by (simp add: example_twice_def example_transition_def)
  have l: "example_twice \<noteq> []
           \<and> last example_twice = example_transition ''Review'' ''Approve'' ''Draft'' 1 ''Any''"
    by (simp add: example_twice_def)
  from resolve_transition_last_match [OF gw a1 tn gt] m1 l
  have r1: "fst (resolve_transition ?E ?V ?D ?K ''Approve'' None)
              = Inr (Some (example_transition ''Review'' ''Approve'' ''Draft'' 1 ''Any''))"
    by (simp add: Let_def)
  from resolve_transition_last_match [OF gw a2 tn gt, of None None None None None] m2
  have r2: "fst (apply_workflow ?E ?W ?D ''Escalate'' None None None None None None)
              = Some (Exn WorkflowTransitionError (Some ''Not a valid Workflow Action''))"
    by (simp add: Let_def)
  from r1 r2 show ?thesis by simp
qed

text \<open>
  C5 (as the code has it). For the action Start without an explicit transition, the
  synthesized transition leads to the \<^emph>\<open>source\<close> state of the first declared transition
  (\<^verbatim>\<open>workflow.transitions[0].state\<close>), allows self-approval and has the mode Any; a workflow
  without transitions raises \<^verbatim>\<open>IndexError\<close>.
\<close>

theorem start_transition_source_state:
  assumes gw: "get_workflow env w doc = (Inr (Some wkf), w0)"
    and tn: "\<not> truthy tn"
  shows "(case transitions wkf of
            [] \<Rightarrow> apply_workflow env w doc ''Start'' tn pa nu src pu c =
                    (Some (Exn IndexError (Some ''list index out of range'')), doc, w0)
          | t0 # rest \<Rightarrow>
              resolve_transition env w0 doc wkf ''Start'' tn = (Inr (Some (start_transition t0)), w0)
              \<and> next_state (start_transition t0) = from_state t0
              \<and> allow_self_approval (start_transition t0) = 1
              \<and> has_approval_access (session_user env) doc (start_transition t0)
              \<and> multi_user_action_mode (start_transition t0) = ''Any''
              \<and> apply_workflow env w doc ''Start'' tn pa nu src pu c =
                  (if is_pre_check_action src
                   then complete_only env w0 wkf doc (session_user env) ''Start'' pa src pu c
                   else advance_state env w0 wkf doc ''Start'' c (start_transition t0)))"
proof (cases "transitions wkf")
  case Nil
  with gw tn show ?thesis
    by (simp add: apply_workflow_def resolve_transition_def)
next
  case (Cons t0 rest)
  with tn have res:
    "resolve_transition env w0 doc wkf ''Start'' tn = (Inr (Some (start_transition t0)), w0)"
    by (simp add: resolve_transition_def)
  have acc: "has_approval_access (session_user env) doc (start_transition t0)"
    by (simp add: has_approval_access_def start_transition_def)
  have "''Start'' \<notin> {''Forward'', ''Add Additional Check''}" by simp
  from apply_workflow_resolved [OF gw this res acc, of pa nu src pu c] res acc Cons
  show ?thesis by (simp add: start_transition_def)
qed

text \<open>
  The first declared transition goes from Draft to Review: Start leads to Draft, not to
  Review.
\<close>

theorem start_target_counterexample:
  "fst (resolve_transition (example_env ''alice'' (example_workflow example_transitions))
          (example_world [] []) (example_doc ''Review'') (example_workflow example_transitions)
          ''Start'' None)
     = Inr (Some (start_transition (hd (transitions (example_workflow example_transitions)))))
   \<and> next_state (start_transition (hd (transitions (example_workflow example_transitions))))
     = Some ''Draft''
   \<and> next_state (hd (transitions (example_workflow example_transitions))) = Some ''Review''
   \<and> field_values (fst (snd (apply_workflow
          (example_env ''alice'' (example_workflow example_transitions))
          (example_world [] []) (example_doc ''Review'') ''Start'' None None None None None None)))
        ''workflow_state'' = Some ''Draft''"
  by (simp add: model_defs example_defs)

theorem start_transition_source_state_witness:
  "resolve_transition (example_env ''alice'' (example_workflow example_transitions))
      (snd (get_workflow (example_env ''alice'' (example_workflow example_transitions))
              (example_world [] []) (example_doc ''Review'')))
      (example_doc ''Review'') (example_workflow example_transitions) ''Start'' None
     = (Inr (Some (start_transition
                    (example_transition ''Draft'' ''Submit for Review'' ''Review'' 1 ''Any''))),
        snd (get_workflow (example_env ''alice'' (example_workflow example_transitions))
              (example_world [] []) (example_doc ''Review'')))
   \<and> next_state (start_transition
                    (example_transition ''Draft'' ''Submit for Review'' ''Review'' 1 ''Any''))
     = Some ''Draft''"
proof -
  let ?K = "example_workflow example_transitions"
  let ?E = "example_env ''alice'' ?K"
  let ?W = "example_world [] []"
  let ?D = "example_doc ''Review''"
  let ?V = "snd (get_workflow ?E ?W ?D)"
  have gw: "get_workflow ?E ?W ?D = (Inr (Some ?K), ?V)"
    by (simp add: model_defs example_defs)
  have tn: "\<not> truthy None" by (simp add: truthy_def)
  from start_transition_source_state [OF gw tn, of None None None None None]
  show ?thesis
    by (simp add: example_workflow_def example_transitions_def example_transition_def)
qed

subsection \<open>The state-advancing branch\<close>

lemma set_update_field_docstatus [simp]:
  "docstatus (set_update_field d ns) = docstatus d"
  by (simp add: set_update_field_def doc_set_def)

lemma enter_state_table:
  "enter_state env w doc2 ns c =
     (case spec_lifecycle_table (docstatus doc2, cint env (doc_status ns)) of
        Some m \<Rightarrow> after_lifecycle w (call_lifecycle env m (set_update_field doc2 ns) (db w)) ns c
      | None \<Rightarrow>
          (Some (Exn ValidationError (Some (''Illegal Document Status for '' @ state ns))),
           set_update_field doc2 ns,
           snd (throw w (''Illegal Document Status for '' @ state ns) ValidationError)))"
  by (simp add: enter_state_def spec_lifecycle_table_def throw_def Let_def)

lemma find_state_first:
  "states wkf = s0 # rest \<Longrightarrow> find_state wkf (Some (state s0)) = Inr s0"
  by (simp add: find_state_def)

text \<open>
  C3. In an invocation with the action Reject that reaches the state-advancing branch (the
  transition is resolved, the user has approval access, the gate is open), the state written
  to the state field is the state of the first row of \<^verbatim>\<open>workflow.states\<close>, and that row is the
  one entered; the target the resolved transition declares plays no part. A workflow without
  states raises \<^verbatim>\<open>IndexError\<close> before anything is written to the state field.
\<close>

theorem reject_writes_first_state:
  assumes gw: "get_workflow env w doc = (Inr (Some wkf), w0)"
    and rt: "resolve_transition env w0 doc wkf ''Reject'' tn = (Inr (Some t), w1)"
    and acc: "has_approval_access (session_user env) doc t"
    and cnt: "\<not> (multi_user_action_mode t = ''All''
                \<and> 0 < other_user_open_action_count env w1 doc (from_state t) (session_user env))"
    and pre: "\<not> is_pre_check_action src"
  shows "(case states wkf of
            [] \<Rightarrow> apply_workflow env w doc ''Reject'' tn pa nu src pu c =
                    (Some (Exn IndexError (Some ''list index out of range'')),
                     doc\<lparr>workflow_action := Some ''Reject'', workflow_comment := c\<rparr>, w1)
          | s0 # rest \<Rightarrow>
              apply_workflow env w doc ''Reject'' tn pa nu src pu c =
                enter_state env w1
                  (doc_set (doc\<lparr>workflow_action := Some ''Reject'', workflow_comment := c\<rparr>)
                     (workflow_state_field wkf) (Some (state s0)))
                  s0 c
              \<and> field_values
                  (doc_set (doc\<lparr>workflow_action := Some ''Reject'', workflow_comment := c\<rparr>)
                     (workflow_state_field wkf) (Some (state s0)))
                  (workflow_state_field wkf) = Some (state s0))"
proof -
  have "''Reject'' \<notin> {''Forward'', ''Add Additional Check''}" by simp
  from apply_workflow_resolved [OF gw this rt acc, of pa nu src pu c] cnt pre
  have adv: "apply_workflow env w doc ''Reject'' tn pa nu src pu c =
               advance_state env w1 wkf doc ''Reject'' c t"
    by simp
  show ?thesis
  proof (cases "states wkf")
    case Nil
    with adv show ?thesis by (simp add: advance_state_def reject_override_def)
  next
    case (Cons s0 rest)
    with adv find_state_first [OF Cons] show ?thesis
      by (simp add: advance_state_def reject_override_def doc_set_def)
  qed
qed

theorem reject_writes_first_state_witness:
  "fst (apply_workflow (example_env ''bob'' (example_workflow example_transitions))
          (example_world [] []) (example_doc ''Review'') ''Reject'' None None None None None
          (Some ''incomplete'')) = None
   \<and> field_values (fst (snd (apply_workflow
          (example_env ''bob'' (example_workflow example_transitions))
          (example_world [] []) (example_doc ''Review'') ''Reject'' None None None None None
          (Some ''incomplete'')))) ''workflow_state'' = Some ''Draft''
   \<and> next_state (example_transition ''Review'' ''Reject'' ''Void'' 1 ''Any'') = Some ''Void''"
proof -
  let ?K = "example_workflow example_transitions"
  let ?E = "example_env ''bob'' ?K"
  let ?W = "example_world [] []"
  let ?D = "example_doc ''Review''"
  let ?V = "snd (get_workflow ?E ?W ?D)"
  let ?t = "example_transition ''Review'' ''Reject'' ''Void'' 1 ''Any''"
  have gw: "get_workflow ?E ?W ?D = (Inr (Some ?K), ?V)"
    by (simp add: model_defs example_defs)
  have rt: "resolve_transition ?E ?V ?D ?K ''Reject'' None = (Inr (Some ?t), ?V)"
    by (simp add: model_defs example_defs)
  have acc: "has_approval_access (session_user ?E) ?D ?t"
    by (simp add: model_defs example_defs)
  have cnt: "\<not> (multi_user_action_mode ?t = ''All''
                \<and> 0 < other_user_open_action_count ?E ?V ?D (from_state ?t) (session_user ?E))"
    by (simp add: example_transition_def)
  have pre: "\<not> is_pre_check_action None" by (simp add: is_pre_check_action_def truthy_def)
  have st: "states ?K = example_states" by (simp add: example_workflow_def)
  from reject_writes_first_state [OF gw rt acc cnt pre, of None None None "Some ''incomplete''"]
  have "apply_workflow ?E ?W ?D ''Reject'' None None None None None (Some ''incomplete'') =
          enter_state ?E ?V
            (doc_set (?D\<lparr>workflow_action := Some ''Reject'',
                        workflow_comment := Some ''incomplete''\<rparr>)
               (workflow_state_field ?K) (Some (state (hd example_states))))
            (hd example_states) (Some ''incomplete'')"
    by (simp add: st example_states_def)
  then show ?thesis
    by (simp add: model_defs example_defs)
qed

text \<open>
  C1 (as the code has it). In the state-advancing branch, with \<open>ns\<close> the row of the target
  state, the pair of the document's status and \<^verbatim>\<open>cint(ns.doc_status)\<close> selects the lifecycle
  method exactly as the table of the design says. A pair the table does not list throws
  \<^verbatim>\<open>frappe.ValidationError\<close> ("Illegal Document Status for ..."), calls no lifecycle method and
  leaves the store and its committed state as they were; the document object, however, has
  by then received the action, the comment, the target state and the update field.
\<close>

theorem lifecycle_table_exact:
  assumes gw: "get_workflow env w doc = (Inr (Some wkf), w0)"
    and act: "act \<notin> {''Forward'', ''Add Additional Check''}"
    and rt: "resolve_transition env w0 doc wkf act tn = (Inr (Some t), w1)"
    and acc: "has_approval_access (session_user env) doc t"
    and cnt: "\<not> (multi_user_action_mode t = ''All''
                \<and> 0 < other_user_open_action_count env w1 doc (from_state t) (session_user env))"
    and pre: "\<not> is_pre_check_action src"
    and ro: "reject_override wkf act t = Inr t'"
    and fs: "find_state wkf (next_state t') = Inr ns"
  shows "(let doc3 = set_update_field
                       (doc_set (doc\<lparr>workflow_action := Some act, workflow_comment := c\<rparr>)
                          (workflow_state_field wkf) (next_state t')) ns
         in apply_workflow env w doc act tn pa nu src pu c =
              (case spec_lifecycle_table (docstatus doc, cint env (doc_status ns)) of
                 Some m \<Rightarrow> after_lifecycle w1 (call_lifecycle env m doc3 (db w)) ns c
               | None \<Rightarrow>
                   (Some (Exn ValidationError
                            (Some (''Illegal Document Status for '' @ state ns))),
                    doc3,
                    snd (throw w1 (''Illegal Document Status for '' @ state ns) ValidationError)))
            \<and> (spec_lifecycle_table (docstatus doc, cint env (doc_status ns)) = None \<longrightarrow>
                 db (snd (snd (apply_workflow env w doc act tn pa nu src pu c))) = db w
                 \<and> committed (snd (snd (apply_workflow env w doc act tn pa nu src pu c)))
                     = committed w))"
proof -
  from get_workflow_db [OF gw] resolve_transition_db [OF rt]
  have frame: "db w1 = db w" "committed w1 = committed w" by simp_all
  from apply_workflow_resolved [OF gw act rt acc, of pa nu src pu c] cnt pre
  have adv: "apply_workflow env w doc act tn pa nu src pu c =
               advance_state env w1 wkf doc act c t"
    by simp
  have "advance_state env w1 wkf doc act c t =
          enter_state env w1
            (doc_set (doc\<lparr>workflow_action := Some act, workflow_comment := c\<rparr>)
               (workflow_state_field wkf) (next_state t')) ns c"
    using ro fs by (simp add: advance_state_def)
  with adv frame show ?thesis
    by (simp add: enter_state_table Let_def doc_set_def split: option.splits)
qed

text \<open>
  A draft is sent to the state Void, whose status is 2: the call throws, and the document
  object it was given now carries the state Void and the action.
\<close>

theorem illegal_pair_mutates_counterexample:
  "fst (apply_workflow (example_env ''alice'' (example_workflow example_discard))
          (example_world [] []) (example_doc ''Draft'') ''Discard'' None None None None None None)
     = Some (Exn ValidationError (Some ''Illegal Document Status for Void''))
   \<and> field_values (example_doc ''Draft'') ''workflow_state'' = Some ''Draft''
   \<and> field_values (fst (snd (apply_workflow
          (example_env ''alice'' (example_workflow example_discard))
          (example_world [] []) (example_doc ''Draft'') ''Discard'' None None None None None None)))
        ''workflow_state'' = Some ''Void''
   \<and> workflow_action (example_doc ''Draft'') = None
   \<and> workflow_action (fst (snd (apply_workflow
          (example_env ''alice'' (example_workflow example_discard))
          (example_world [] []) (example_doc ''Draft'') ''Discard'' None None None None None None)))
     = Some ''Discard''"
  by (simp add: model_defs example_defs example_discard_def)

theorem lifecycle_table_exact_witness:
  "spec_lifecycle_table (docstatus (example_doc ''Draft''),
       cint (example_env ''alice'' (example_workflow example_discard)) ''2'') = None
   \<and> fst (apply_workflow (example_env ''alice'' (example_workflow example_discard))
          (example_world [] []) (example_doc ''Draft'') ''Discard'' None None None None None None)
     = Some (Exn ValidationError (Some ''Illegal Document Status for Void''))
   \<and> db (snd (snd (apply_workflow (example_env ''alice'' (example_workflow example_discard))
          (example_world [] []) (example_doc ''Draft'') ''Discard'' None None None None None None)))
     = db (example_world [] [])
   \<and> spec_lifecycle_table (docstatus (example_doc ''Review''),
       cint (example_env ''bob'' (example_workflow example_transitions)) ''1'') = Some Submit
   \<and> apply_workflow (example_env ''carol'' (example_workflow example_transitions))
          (example_world [] []) (example_doc ''Review'') ''Approve'' None None None None None None
     = after_lifecycle
         (snd (get_workflow (example_env ''carol'' (example_workflow example_transitions))
                 (example_world [] []) (example_doc ''Review'')))
         (submit (example_env ''carol'' (example_workflow example_transitions))
            ((example_doc ''Review'')
               \<lparr>workflow_action := Some ''Approve'',
                field_values := [''workflow_state'' \<mapsto> ''Approved'', ''approved'' \<mapsto> ''1'']\<rparr>)
            (db (example_world [] [])))
         (example_states ! 2) None"
proof -
  let ?K = "example_workflow example_discard"
  let ?E = "example_env ''alice'' ?K"
  let ?W = "example_world [] []"
  let ?D = "example_doc ''Draft''"
  let ?V = "snd (get_workflow ?E ?W ?D)"
  let ?t = "example_transition ''Draft'' ''Discard'' ''Void'' 1 ''Any''"
  let ?ns = "\<lparr>state = ''Void'', doc_status = ''2'', update_field = None, update_value = None\<rparr>"
  have gw: "get_workflow ?E ?W ?D = (Inr (Some ?K), ?V)"
    by (simp add: model_defs example_defs)
  have act: "''Discard'' \<notin> {''Forward'', ''Add Additional Check''}" by simp
  have rt: "resolve_transition ?E ?V ?D ?K ''Discard'' None = (Inr (Some ?t), ?V)"
    by (simp add: model_defs example_defs example_discard_def)
  have acc: "has_approval_access (session_user ?E) ?D ?t"
    by (simp add: model_defs example_defs)
  have cnt: "\<not> (multi_user_action_mode ?t = ''All''
                \<and> 0 < other_user_open_action_count ?E ?V ?D (from_state ?t) (session_user ?E))"
    by (simp add: example_transition_def)
  have pre: "\<not> is_pre_check_action None" by (simp add: is_pre_check_action_def truthy_def)
  have ro: "reject_override ?K ''Discard'' ?t = Inr ?t" by (simp add: reject_override_def)
  have fs: "find_state ?K (next_state ?t) = Inr ?ns"
    by (simp add: find_state_def example_defs)
  have tab: "spec_lifecycle_table (docstatus ?D, cint ?E ''2'') = None"
    by (simp add: spec_lifecycle_table_def example_defs)
  from lifecycle_table_exact [OF gw act rt acc cnt pre ro fs, of None None None None] tab
    get_workflow_db [OF gw]
  have illegal:
    "fst (apply_workflow ?E ?W ?D ''Discard'' None None None None None None)
       = Some (Exn ValidationError (Some ''Illegal Document Status for Void''))
     \<and> db (snd (snd (apply_workflow ?E ?W ?D ''Discard'' None None None None None None))) = db ?W"
    by (simp add: Let_def)
  let ?K' = "example_workflow example_transitions"
  let ?E' = "example_env ''carol'' ?K'"
  let ?D' = "example_doc ''Review''"
  let ?V' = "snd (get_workflow ?E' ?W ?D')"
  let ?t' = "example_transition ''Review'' ''Approve'' ''Approved'' 0 ''All''"
  have gw': "get_workflow ?E' ?W ?D' = (Inr (Some ?K'), ?V')"
    by (simp add: model_defs example_defs)
  have act': "''Approve'' \<notin> {''Forward'', ''Add Additional Check''}" by simp
  have rt': "resolve_transition ?E' ?V' ?D' ?K' ''Approve'' None = (Inr (Some ?t'), ?V')"
    by (simp add: model_defs example_defs)
  have acc': "has_approval_access (session_user ?E') ?D' ?t'"
    by (simp add: model_defs example_defs)
  have cnt': "\<not> (multi_user_action_mode ?t' = ''All''
                \<and> 0 < other_user_open_action_count ?E' ?V' ?D' (from_state ?t') (session_user ?E'))"
    by (simp add: model_defs example_defs)
  have ro': "reject_override ?K' ''Approve'' ?t' = Inr ?t'" by (simp add: reject_override_def)
  have fs': "find_state ?K' (next_state ?t') = Inr (example_states ! 2)"
    by (simp add: find_state_def example_defs)
  have tab': "spec_lifecycle_table (docstatus ?D', cint (example_env ''bob'' ?K') ''1'') = Some Submit"
    "spec_lifecycle_table (docstatus ?D', cint ?E' (doc_status (example_states ! 2))) = Some Submit"
    by (simp_all add: spec_lifecycle_table_def example_defs)
  from lifecycle_table_exact [OF gw' act' rt' acc' cnt' pre ro' fs', of None None None None] tab'
  have legal:
    "apply_workflow ?E' ?W ?D' ''Approve'' None None None None None None
       = after_lifecycle ?V'
           (submit ?E'
              (set_update_field
                 (doc_set (?D'\<lparr>workflow_action := Some ''Approve'', workflow_comment := None\<rparr>)
                    (workflow_state_field ?K') (next_state ?t')) (example_states ! 2))
              (db ?W))
           (example_states ! 2) None"
    by (simp add: Let_def)
  have doc3: "set_update_field
                 (doc_set (?D'\<lparr>workflow_action := Some ''Approve'', workflow_comment := None\<rparr>)
                    (workflow_state_field ?K') (next_state ?t')) (example_states ! 2)
              = ?D'\<lparr>workflow_action := Some ''Approve'',
                    field_values := [''workflow_state'' \<mapsto> ''Approved'', ''approved'' \<mapsto> ''1'']\<rparr>"
    by (simp add: set_update_field_def doc_set_def truthy_def example_defs)
  from tab illegal tab'(1) legal doc3 show ?thesis by simp
qed

subsection \<open>The gate of the mode All\<close>

lemma find_transition_mem:
  "find_transition env w doc act ts tr = Inr (Some t) \<Longrightarrow> t \<in> set ts \<or> tr = Some t"
  by (induction ts arbitrary: tr) (auto split: sum.splits if_splits)

lemma resolve_transition_searched:
  assumes "resolve_transition env w doc wkf act tn = (Inr (Some t), w1)"
    and "\<not> truthy tn" and "act \<noteq> ''Start''"
  shows "from_state t = field_values doc (workflow_state_field wkf)"
proof -
  from assms obtain ts w' where
    gt: "get_transitions env w doc (Some wkf) False = (Inr ts, w')"
    and ft: "find_transition env w' doc act ts None = Inr (Some t)"
    by (auto simp: resolve_transition_def split: prod.splits sum.splits)
  from find_transition_mem [OF ft] have "t \<in> set ts" by simp
  with get_transitions_given(3) [OF gt] show ?thesis by simp
qed

lemma complete_only_effect:
  "complete_only env w wkf doc user act pa src pu c = (r, d, w') \<Longrightarrow>
     r = None \<and> d = doc \<and> docs (db w') = docs (db w) \<and> committed w' = committed w
     \<and> actions (db w') =
         map (\<lambda>a. if reference_doctype a = doctype doc \<and> reference_name a = name doc
                      \<and> wa_user a = user \<and> wa_status a = Open
                   then a\<lparr>wa_status := Completed\<rparr> else a) (actions (db w))
         @ (if is_pre_check_action src \<and> truthy pu
            then map (\<lambda>a. a\<lparr>wa_status := Open\<rparr>) (new_action_records env wkf doc pu pa [] user c)
            else [])"
  by (auto simp: complete_only_def Let_def update_completed_workflow_actions_def
        create_workflow_actions_def add_comment_def split: if_splits)

text \<open>
  C2 (as the code has it). Take an invocation other than Forward and Add Additional Check
  whose resolved transition passes the approval check and has the mode All. The count is
  taken at the source state of the transition, which is the current state of the document
  when the transition was found by the search. If other users hold actions there that are not
  Completed, the document is returned as it was, no document of the store changes, and in the
  ledger exactly the Open actions of the acting user for this document become Completed (a
  pre-check with a previous user also appends new Open records). If there are none and the
  invocation is not a pre-check, the state-advancing branch runs: it writes the target of the
  transition to the state field, or, for the action Reject, the first declared state.
\<close>

theorem all_mode_gating:
  assumes gw: "get_workflow env w doc = (Inr (Some wkf), w0)"
    and act: "act \<notin> {''Forward'', ''Add Additional Check''}"
    and rt: "resolve_transition env w0 doc wkf act tn = (Inr (Some t), w1)"
    and acc: "has_approval_access (session_user env) doc t"
    and mode: "multi_user_action_mode t = ''All''"
  shows "(0 < other_user_open_action_count env w1 doc (from_state t) (session_user env) \<longrightarrow>
            fst (apply_workflow env w doc act tn pa nu src pu c) = None
            \<and> fst (snd (apply_workflow env w doc act tn pa nu src pu c)) = doc
            \<and> docs (db (snd (snd (apply_workflow env w doc act tn pa nu src pu c)))) = docs (db w)
            \<and> actions (db (snd (snd (apply_workflow env w doc act tn pa nu src pu c)))) =
                map (\<lambda>a. if reference_doctype a = doctype doc \<and> reference_name a = name doc
                             \<and> wa_user a = session_user env \<and> wa_status a = Open
                          then a\<lparr>wa_status := Completed\<rparr> else a) (actions (db w))
                @ (if is_pre_check_action src \<and> truthy pu
                   then map (\<lambda>a. a\<lparr>wa_status := Open\<rparr>)
                          (new_action_records env wkf doc pu pa [] (session_user env) c)
                   else []))
       \<and> (other_user_open_action_count env w1 doc (from_state t) (session_user env) = 0
            \<and> \<not> is_pre_check_action src \<longrightarrow>
            apply_workflow env w doc act tn pa nu src pu c = advance_state env w1 wkf doc act c t
            \<and> (act \<noteq> ''Reject'' \<longrightarrow>
                 apply_workflow env w doc act tn pa nu src pu c =
                   (case find_state wkf (next_state t) of
                      Inl e \<Rightarrow>
                        (Some e,
                         doc_set (doc\<lparr>workflow_action := Some act, workflow_comment := c\<rparr>)
                           (workflow_state_field wkf) (next_state t), w1)
                    | Inr ns \<Rightarrow>
                        enter_state env w1
                          (doc_set (doc\<lparr>workflow_action := Some act, workflow_comment := c\<rparr>)
                             (workflow_state_field wkf) (next_state t)) ns c))
            \<and> (act = ''Reject'' \<longrightarrow>
                 (case states wkf of
                    [] \<Rightarrow> fst (apply_workflow env w doc act tn pa nu src pu c)
                            = Some (Exn IndexError (Some ''list index out of range''))
                  | s0 # rest \<Rightarrow>
                      apply_workflow env w doc act tn pa nu src pu c =
                        enter_state env w1
                          (doc_set (doc\<lparr>workflow_action := Some act, workflow_comment := c\<rparr>)
                             (workflow_state_field wkf) (Some (state s0))) s0 c)))
       \<and> (\<not> truthy tn \<and> act \<noteq> ''Start'' \<longrightarrow>
            from_state t = field_values doc (workflow_state_field wkf))"
proof -
  let ?n = "other_user_open_action_count env w1 doc (from_state t) (session_user env)"
  let ?r = "apply_workflow env w doc act tn pa nu src pu c"
  from get_workflow_db [OF gw] resolve_transition_db [OF rt]
  have frame: "db w1 = db w" by simp
  note resolved = apply_workflow_resolved [OF gw act rt acc, of pa nu src pu c]
  have gated: "0 < ?n \<Longrightarrow> ?r = complete_only env w1 wkf doc (session_user env) act pa src pu c"
    using resolved mode by simp
  have part1: "0 < ?n \<Longrightarrow>
      fst ?r = None \<and> fst (snd ?r) = doc \<and> docs (db (snd (snd ?r))) = docs (db w)
      \<and> actions (db (snd (snd ?r))) =
          map (\<lambda>a. if reference_doctype a = doctype doc \<and> reference_name a = name doc
                       \<and> wa_user a = session_user env \<and> wa_status a = Open
                    then a\<lparr>wa_status := Completed\<rparr> else a) (actions (db w))
          @ (if is_pre_check_action src \<and> truthy pu
             then map (\<lambda>a. a\<lparr>wa_status := Open\<rparr>)
                    (new_action_records env wkf doc pu pa [] (session_user env) c)
             else [])"
  proof -
    assume pos: "0 < ?n"
    obtain r d w' where co:
      "complete_only env w1 wkf doc (session_user env) act pa src pu c = (r, d, w')"
      by (cases "complete_only env w1 wkf doc (session_user env) act pa src pu c") auto
    from complete_only_effect [OF co] gated [OF pos] co frame show ?thesis by simp
  qed
  have adv: "?n = 0 \<Longrightarrow> \<not> is_pre_check_action src \<Longrightarrow>
               ?r = advance_state env w1 wkf doc act c t"
    using resolved by simp
  have part2a: "?n = 0 \<Longrightarrow> \<not> is_pre_check_action src \<Longrightarrow> act \<noteq> ''Reject'' \<Longrightarrow>
      ?r = (case find_state wkf (next_state t) of
              Inl e \<Rightarrow>
                (Some e,
                 doc_set (doc\<lparr>workflow_action := Some act, workflow_comment := c\<rparr>)
                   (workflow_state_field wkf) (next_state t), w1)
            | Inr ns \<Rightarrow>
                enter_state env w1
                  (doc_set (doc\<lparr>workflow_action := Some act, workflow_comment := c\<rparr>)
                     (workflow_state_field wkf) (next_state t)) ns c)"
    using adv by (simp add: advance_state_def reject_override_def split: sum.splits)
  have part2b: "?n = 0 \<Longrightarrow> \<not> is_pre_check_action src \<Longrightarrow> act = ''Reject'' \<Longrightarrow>
      (case states wkf of
         [] \<Rightarrow> fst ?r = Some (Exn IndexError (Some ''list index out of range''))
       | s0 # rest \<Rightarrow>
           ?r = enter_state env w1
                  (doc_set (doc\<lparr>workflow_action := Some act, workflow_comment := c\<rparr>)
                     (workflow_state_field wkf) (Some (state s0))) s0 c)"
    using adv
    by (auto simp: advance_state_def reject_override_def find_state_def split: list.splits)
  have part3: "\<not> truthy tn \<Longrightarrow> act \<noteq> ''Start'' \<Longrightarrow>
                 from_state t = field_values doc (workflow_state_field wkf)"
    using resolve_transition_searched [OF rt] by simp
  show ?thesis
  proof (intro conjI impI)
    assume "0 < ?n"
    from part1 [OF this]
    show "fst ?r = None" and "fst (snd ?r) = doc" and "docs (db (snd (snd ?r))) = docs (db w)"
      and "actions (db (snd (snd ?r))) =
          map (\<lambda>a. if reference_doctype a = doctype doc \<and> reference_name a = name doc
                       \<and> wa_user a = session_user env \<and> wa_status a = Open
                    then a\<lparr>wa_status := Completed\<rparr> else a) (actions (db w))
          @ (if is_pre_check_action src \<and> truthy pu
             then map (\<lambda>a. a\<lparr>wa_status := Open\<rparr>)
                    (new_action_records env wkf doc pu pa [] (session_user env) c)
             else [])"
      by simp_all
  next
    assume "?n = 0 \<and> \<not> is_pre_check_action src"
    then show "?r = advance_state env w1 wkf doc act c t" using adv by simp
  next
    assume "?n = 0 \<and> \<not> is_pre_check_action src" and "act \<noteq> ''Reject''"
    then show "?r = (case find_state wkf (next_state t) of
              Inl e \<Rightarrow>
                (Some e,
                 doc_set (doc\<lparr>workflow_action := Some act, workflow_comment := c\<rparr>)
                   (workflow_state_field wkf) (next_state t), w1)
            | Inr ns \<Rightarrow>
                enter_state env w1
                  (doc_set (doc\<lparr>workflow_action := Some act, workflow_comment := c\<rparr>)
                     (workflow_state_field wkf) (next_state t)) ns c)"
      using part2a by simp
  next
    assume "?n = 0 \<and> \<not> is_pre_check_action src" and "act = ''Reject''"
    then show "(case states wkf of
         [] \<Rightarrow> fst ?r = Some (Exn IndexError (Some ''list index out of range''))
       | s0 # rest \<Rightarrow>
           ?r = enter_state env w1
                  (doc_set (doc\<lparr>workflow_action := Some act, workflow_comment := c\<rparr>)
                     (workflow_state_field wkf) (Some (state s0))) s0 c)"
      using part2b by simp
  next
    assume "\<not> truthy tn \<and> act \<noteq> ''Start''"
    then show "from_state t = field_values doc (workflow_state_field wkf)"
      using part3 by simp
  qed
qed

text \<open>
  A transition given by name whose source state is Draft, applied to a document in Review
  that another user has yet to act on: the count at Draft is zero and the state advances.
\<close>

theorem explicit_transition_counterexample:
  "get_transition_doc (example_env ''bob'' (example_workflow example_transitions)) ''TR-0001''
     = Some (example_transition ''Draft'' ''Approve'' ''Approved'' 0 ''All'')
   \<and> multi_user_action_mode (example_transition ''Draft'' ''Approve'' ''Approved'' 0 ''All'') = ''All''
   \<and> field_values (example_doc ''Review'') ''workflow_state'' = Some ''Review''
   \<and> other_user_open_action_count (example_env ''bob'' (example_workflow example_transitions))
        (example_world [] [example_action ''Review'' ''carol'', example_action ''Review'' ''bob''])
        (example_doc ''Review'') (Some ''Review'') ''bob'' = 1
   \<and> fst (apply_workflow (example_env ''bob'' (example_workflow example_transitions))
        (example_world [] [example_action ''Review'' ''carol'', example_action ''Review'' ''bob''])
        (example_doc ''Review'') ''Approve'' (Some ''TR-0001'') None None None None None) = None
   \<and> field_values (fst (snd (apply_workflow
        (example_env ''bob'' (example_workflow example_transitions))
        (example_world [] [example_action ''Review'' ''carol'', example_action ''Review'' ''bob''])
        (example_doc ''Review'') ''Approve'' (Some ''TR-0001'') None None None None None)))
       ''workflow_state'' = Some ''Approved''"
  by (simp add: model_defs example_defs)

theorem all_mode_gating_witness:
  "fst (snd (apply_workflow (example_env ''bob'' (example_workflow example_transitions))
        (example_world [] [example_action ''Review'' ''carol'', example_action ''Review'' ''bob''])
        (example_doc ''Review'') ''Approve'' None None None None None None))
     = example_doc ''Review''
   \<and> map wa_status (actions (db (snd (snd (apply_workflow
        (example_env ''bob'' (example_workflow example_transitions))
        (example_world [] [example_action ''Review'' ''carol'', example_action ''Review'' ''bob''])
        (example_doc ''Review'') ''Approve'' None None None None None None)))))
     = [Open, Completed]
   \<and> field_values (fst (snd (apply_workflow
        (example_env ''bob'' (example_workflow example_transitions))
        (example_world [] [example_action ''Review'' ''bob''])
        (example_doc ''Review'') ''Approve'' None None None None None None)))
       ''workflow_state'' = Some ''Approved''"
proof -
  let ?K = "example_workflow example_transitions"
  let ?E = "example_env ''bob'' ?K"
  let ?D = "example_doc ''Review''"
  let ?t = "example_transition ''Review'' ''Approve'' ''Approved'' 0 ''All''"
  let ?A = "example_world [] [example_action ''Review'' ''carol'', example_action ''Review'' ''bob'']"
  let ?B = "example_world [] [example_action ''Review'' ''bob'']"
  let ?VA = "snd (get_workflow ?E ?A ?D)"
  let ?VB = "snd (get_workflow ?E ?B ?D)"
  have act: "''Approve'' \<notin> {''Forward'', ''Add Additional Check''}" by simp
  have mode: "multi_user_action_mode ?t = ''All''" by (simp add: example_transition_def)
  have acc: "has_approval_access (session_user ?E) ?D ?t"
    by (simp add: model_defs example_defs)
  have gwA: "get_workflow ?E ?A ?D = (Inr (Some ?K), ?VA)"
    by (simp add: model_defs example_defs)
  have rtA: "resolve_transition ?E ?VA ?D ?K ''Approve'' None = (Inr (Some ?t), ?VA)"
    by (simp add: model_defs example_defs)
  have cntA: "0 < other_user_open_action_count ?E ?VA ?D (from_state ?t) (session_user ?E)"
    by (simp add: model_defs example_defs)
  have pre: "\<not> (is_pre_check_action None \<and> truthy None)"
    by (simp add: truthy_def)
  from all_mode_gating [OF gwA act rtA acc mode, of None None None None None] cntA pre
  have a: "fst (snd (apply_workflow ?E ?A ?D ''Approve'' None None None None None None)) = ?D
           \<and> map wa_status (actions (db (snd (snd
                 (apply_workflow ?E ?A ?D ''Approve'' None None None None None None)))))
               = [Open, Completed]"
    by (simp add: example_defs)
  have gwB: "get_workflow ?E ?B ?D = (Inr (Some ?K), ?VB)"
    by (simp add: model_defs example_defs)
  have rtB: "resolve_transition ?E ?VB ?D ?K ''Approve'' None = (Inr (Some ?t), ?VB)"
    by (simp add: model_defs example_defs)
  have cntB: "other_user_open_action_count ?E ?VB ?D (from_state ?t) (session_user ?E) = 0"
    by (simp add: model_defs example_defs)
  have pre': "\<not> is_pre_check_action None" by (simp add: is_pre_check_action_def truthy_def)
  from all_mode_gating [OF gwB act rtB acc mode, of None None None None None] cntB pre'
  have "apply_workflow ?E ?B ?D ''Approve'' None None None None None None
          = advance_state ?E ?VB ?K ?D ''Approve'' None ?t"
    by simp
  then have b: "field_values (fst (snd
                  (apply_workflow ?E ?B ?D ''Approve'' None None None None None None)))
                ''workflow_state'' = Some ''Approved''"
    by (simp add: model_defs example_defs)
  from a b show ?thesis by simp
qed

subsection \<open>The bulk executor\<close>

lemma dict_append_nonempty [simp]: "dict_append d k v \<noteq> []"
  by (cases d) (auto split: if_splits)

lemma entries_dict_append:
  "entries (dict_append d k v) n = (if n = k then entries d k @ [v] else entries d n)"
  by (induction d k v rule: dict_append.induct) (auto simp: entries_def)

lemma append_all_simps [simp]:
  "append_all n d [] = d"
  "append_all n d (e # es) = append_all n (dict_append d n e) es"
  by (simp_all add: append_all_def)

lemma append_all_empty_iff: "append_all n d es = [] \<longleftrightarrow> d = [] \<and> es = []"
  by (induction es arbitrary: d) auto

lemma entries_append_all:
  "entries (append_all n d es) k = (if k = n then entries d n @ es else entries d k)"
  by (induction es arbitrary: d) (auto simp: entries_dict_append)

lemma log_messages_eq:
  "log_messages n ms (ml, f, s) =
     ((butlast ^^ length ms) ml,
      append_all n f (map (message_entry n) (filter raise_exception ms)),
      append_all n s (map (message_entry n) (filter (\<lambda>m. \<not> raise_exception m) ms)))"
  by (induction ms arbitrary: ml f s) (simp_all add: Let_def message_entry_def funpow_swap1)

lemma length_funpow_butlast: "length ((butlast ^^ k) xs) = length xs - k"
  by (induction k arbitrary: xs) (simp_all add: funpow_swap1)

lemma funpow_butlast_all [simp]: "(butlast ^^ length xs) xs = []"
  using length_funpow_butlast [of "length xs" xs] by simp

text \<open>What one turn of the loop does to the two logs and to the world.\<close>

lemma process_item_eq:
  assumes "attempt env w ns dt act tr i n = (r, w1)"
  shows "process_item env ns dt act tr (i, n) (w, f, s) =
     (let w2 = (case r of None \<Rightarrow> w1
                | Some e \<Rightarrow> log_error (db_rollback w1)
                     (''Workflow '' @ act @ '' threw an error for '' @ dt @ '' '' @ n));
          msgs = message_log w1
      in (w2\<lparr>message_log := []\<rparr>,
          (if msgs = []
           then (case r of None \<Rightarrow> f
                 | Some e \<Rightarrow> dict_append f n
                     \<lparr>entry_docname = n, entry_message = Some (exception_message e)\<rparr>)
           else append_all n f (map (message_entry n) (filter raise_exception msgs))),
          (if msgs = []
           then (case r of None \<Rightarrow> dict_append s n \<lparr>entry_docname = n, entry_message = None\<rparr>
                 | Some e \<Rightarrow> s)
           else append_all n s (map (message_entry n) (filter (\<lambda>m. \<not> raise_exception m) msgs)))))"
proof (cases r)
  case None
  with assms show ?thesis
    by (cases "message_log w1 = []")
       (simp_all add: process_item_def finally_clause_def log_messages_eq Let_def)
next
  case (Some e)
  with assms show ?thesis
    by (cases "message_log w1 = []")
       (simp_all add: process_item_def finally_clause_def log_messages_eq Let_def
          log_error_def db_rollback_def)
qed

lemma after_lifecycle_committed:
  "after_lifecycle w r ns c = (x, d, w') \<Longrightarrow> committed w' = committed w"
  by (auto simp: after_lifecycle_def Let_def add_comment_def split: option.splits)

lemma enter_state_committed:
  "enter_state env w d ns c = (x, d', w') \<Longrightarrow> committed w' = committed w"
  by (auto simp: enter_state_def Let_def throw_def split: if_splits
        dest: after_lifecycle_committed)

lemma advance_state_committed:
  "advance_state env w wkf d act c t = (x, d', w') \<Longrightarrow> committed w' = committed w"
  by (auto simp: advance_state_def Let_def split: sum.splits dest: enter_state_committed)

lemma apply_workflow_committed:
  assumes "apply_workflow env w doc act tn pa nu src pu c = (x, d', w')"
  shows "committed w' = committed w"
proof -
  obtain r w0 where gw: "get_workflow env w doc = (r, w0)"
    by (cases "get_workflow env w doc") auto
  from get_workflow_db [OF gw] have c0: "committed w0 = committed w" by simp
  show ?thesis
  proof (cases r)
    case (Inl e)
    with assms gw c0 show ?thesis by (simp add: apply_workflow_def)
  next
    case (Inr ok)
    show ?thesis
    proof (cases ok)
      case None
      with assms gw c0 Inr show ?thesis by (auto simp: apply_workflow_def throw_def)
    next
      case (Some wkf)
      show ?thesis
      proof (cases "act \<in> {''Forward'', ''Add Additional Check''}")
        case True
        with assms gw c0 Inr Some show ?thesis
          by (auto simp: apply_workflow_def Let_def add_comment_def
                create_workflow_actions_def update_completed_workflow_actions_def)
      next
        case False
        obtain q w1 where rt: "resolve_transition env w0 doc wkf act tn = (q, w1)"
          by (cases "resolve_transition env w0 doc wkf act tn") auto
        from resolve_transition_db [OF rt] c0 have c1: "committed w1 = committed w" by simp
        from assms gw Inr Some False rt c1 show ?thesis
          by (auto simp: apply_workflow_def Let_def throw_def
                split: sum.splits option.splits if_splits
                dest: complete_only_effect advance_state_committed)
      qed
    qed
  qed
qed

lemma attempt_failure_committed:
  assumes "attempt env w ns dt act tr i n = (Some e, w1)"
  shows "committed w1 = committed w"
  using assms
  by (auto simp: attempt_def Let_def show_progress_def get_doc_def throw_def db_commit_def
        split: prod.splits sum.splits option.splits if_splits dest: apply_workflow_committed)

lemma attempt_success_committed:
  assumes "attempt env w ns dt act tr i n = (None, w1)"
  shows "committed w1 = db w1"
  using assms
  by (auto simp: attempt_def Let_def db_commit_def
        split: prod.splits sum.splits option.splits)

text \<open>Commit on success, rollback on failure.\<close>

lemma process_item_transaction:
  assumes "attempt env w ns dt act tr i n = (r, w1)"
  shows "db (fst (process_item env ns dt act tr (i, n) (w, f, s)))
           = committed (fst (process_item env ns dt act tr (i, n) (w, f, s)))"
    and "r = None \<Longrightarrow> committed (fst (process_item env ns dt act tr (i, n) (w, f, s))) = db w1"
    and "r \<noteq> None \<Longrightarrow>
           committed (fst (process_item env ns dt act tr (i, n) (w, f, s))) = committed w"
proof -
  show "db (fst (process_item env ns dt act tr (i, n) (w, f, s)))
           = committed (fst (process_item env ns dt act tr (i, n) (w, f, s)))"
  proof (cases r)
    case None
    with assms attempt_success_committed [of env w ns dt act tr i n w1] show ?thesis
      by (simp add: process_item_eq [OF assms] Let_def)
  next
    case (Some e)
    with assms show ?thesis
      by (simp add: process_item_eq [OF assms] Let_def log_error_def db_rollback_def)
  qed
next
  assume "r = None"
  with assms attempt_success_committed [of env w ns dt act tr i n w1]
  show "committed (fst (process_item env ns dt act tr (i, n) (w, f, s))) = db w1"
    by (simp add: process_item_eq [OF assms] Let_def)
next
  assume "r \<noteq> None"
  then obtain e where "r = Some e" by auto
  with assms attempt_failure_committed [of env w ns dt act tr i n e w1]
  show "committed (fst (process_item env ns dt act tr (i, n) (w, f, s))) = committed w"
    by (simp add: process_item_eq [OF assms] Let_def log_error_def db_rollback_def)
qed

lemma filter_none: "list_all (\<lambda>m. \<not> P m) xs \<Longrightarrow> filter P xs = []"
  by (induction xs) auto

lemma filter_all: "list_all P xs \<Longrightarrow> filter P xs = xs"
  by (induction xs) auto

lemma process_item_plain:
  assumes at: "attempt env w ns dt act tr i n = (r, w1)"
    and plain: "case r of None \<Rightarrow> list_all (\<lambda>m. \<not> raise_exception m) (message_log w1)
                | Some e \<Rightarrow> list_all raise_exception (message_log w1)"
    and pi: "process_item env ns dt act tr (i, n) (w, f, s) = (w', f', s')"
  shows "(r = None \<longrightarrow> f' = f \<and> s' \<noteq> []) \<and> (r \<noteq> None \<longrightarrow> s' = s \<and> f' \<noteq> [])"
proof (cases r)
  case None
  with plain have "filter raise_exception (message_log w1) = []"
    and "filter (\<lambda>m. \<not> raise_exception m) (message_log w1) = message_log w1"
    by (simp_all add: filter_none filter_all)
  with None pi show ?thesis
    by (auto simp: process_item_eq [OF at] Let_def append_all_empty_iff split: if_splits)
next
  case (Some e)
  with plain have "filter raise_exception (message_log w1) = message_log w1"
    and "filter (\<lambda>m. \<not> raise_exception m) (message_log w1) = []"
    by (simp_all add: filter_none filter_all)
  with Some pi show ?thesis
    by (auto simp: process_item_eq [OF at] Let_def append_all_empty_iff split: if_splits)
qed

lemma run_severity:
  assumes "plainly_reported env ns dt act tr items st"
    and "foldl (\<lambda>st item. process_item env ns dt act tr item st) st items = (w', f', s')"
  shows "(f' = [] \<longleftrightarrow> fst (snd st) = [] \<and> False \<notin> set (run_outcomes env ns dt act tr items st))
       \<and> (s' = [] \<longleftrightarrow> snd (snd st) = [] \<and> True \<notin> set (run_outcomes env ns dt act tr items st))"
  using assms
proof (induction items arbitrary: st)
  case Nil
  then show ?case by auto
next
  case (Cons item items)
  obtain i n where item: "item = (i, n)" by (cases item)
  obtain w f s where st: "st = (w, f, s)" by (cases st)
  obtain r w1 where at: "attempt env w ns dt act tr i n = (r, w1)"
    by (cases "attempt env w ns dt act tr i n")
  obtain w2 f2 s2 where pi: "process_item env ns dt act tr (i, n) (w, f, s) = (w2, f2, s2)"
    by (cases "process_item env ns dt act tr (i, n) (w, f, s)")
  from Cons.prems(1) item st at
  have plain: "case r of None \<Rightarrow> list_all (\<lambda>m. \<not> raise_exception m) (message_log w1)
                | Some e \<Rightarrow> list_all raise_exception (message_log w1)"
    and rest: "plainly_reported env ns dt act tr items (w2, f2, s2)"
    using pi by (auto split: option.splits)
  from Cons.prems(2) item st pi
  have fold: "foldl (\<lambda>st item. process_item env ns dt act tr item st) (w2, f2, s2) items
                = (w', f', s')"
    by simp
  note step = process_item_plain [OF at plain pi]
  note ih = Cons.IH [OF rest fold]
  have out: "run_outcomes env ns dt act tr (item # items) st
               = (r = None) # run_outcomes env ns dt act tr items (w2, f2, s2)"
    using item st at pi by simp
  show ?case
  proof (cases "r = None")
    case True
    with step ih out st show ?thesis by auto
  next
    case False
    with step ih out st show ?thesis by auto
  qed
qed

lemma process_item_message_log:
  "message_log (fst (process_item env ns dt act tr item st)) = []"
proof -
  obtain i n where item: "item = (i, n)" by (cases item)
  obtain w f s where st: "st = (w, f, s)" by (cases st)
  obtain r w1 where at: "attempt env w ns dt act tr i n = (r, w1)"
    by (cases "attempt env w ns dt act tr i n")
  show ?thesis by (simp add: item st process_item_eq [OF at] Let_def)
qed

lemma run_message_log:
  "message_log (fst st) = [] \<Longrightarrow>
     message_log (fst (foldl (\<lambda>st item. process_item env ns dt act tr item st) st items)) = []"
  by (induction items arbitrary: st) (simp_all add: process_item_message_log)

lemma bulk_loop_message_log:
  "message_log (fst (bulk_loop env w ns dt act tr items)) = []"
  by (simp add: bulk_loop_def run_message_log clear_messages_def)

lemma bulk_loop_snoc:
  "bulk_loop env w ns dt act tr (items @ [item]) =
     process_item env ns dt act tr item (bulk_loop env w ns dt act tr items)"
  by (simp add: bulk_loop_def)

lemma report_messages:
  "message_log (bulk_workflow_approval env w ns dt act tr) =
     bulk_report env dt
       (fst (snd (bulk_loop env w ns dt act tr (zip [1..<Suc (length ns)] ns))))
       (snd (snd (bulk_loop env w ns dt act tr (zip [1..<Suc (length ns)] ns))))"
proof -
  obtain w1 f s where bl:
    "bulk_loop env w ns dt act tr (zip [1..<Suc (length ns)] ns) = (w1, f, s)"
    by (cases "bulk_loop env w ns dt act tr (zip [1..<Suc (length ns)] ns)")
  from bulk_loop_message_log [of env w ns dt act tr "zip [1..<Suc (length ns)] ns"] bl
  have "message_log w1 = []" by simp
  with bl show ?thesis
    by (simp add: bulk_workflow_approval_def print_workflow_log_def msgprint_def Let_def
          bulk_report_def workflow_status_def)
qed

lemmas bulk_defs = attempt_def get_doc_def show_progress_def process_item_def finally_clause_def
  bulk_loop_def log_error_def db_commit_def db_rollback_def clear_messages_def
  bulk_indicator_def print_workflow_log_def bulk_workflow_approval_def message_entry_def

lemma process_item_entry:
  "length (entries f n) + length (entries s n)
     < length (entries (fst (snd (process_item env ns dt act tr (i, n) (w, f, s)))) n)
       + length (entries (snd (snd (process_item env ns dt act tr (i, n) (w, f, s)))) n)"
proof -
  obtain r w1 where at: "attempt env w ns dt act tr i n = (r, w1)"
    by (cases "attempt env w ns dt act tr i n")
  show ?thesis
  proof (cases "message_log w1 = []")
    case True
    then show ?thesis
      by (cases r) (simp_all add: process_item_eq [OF at] Let_def entries_dict_append)
  next
    case False
    then have "0 < length (message_log w1)" by simp
    with sum_length_filter_compl [of raise_exception "message_log w1"]
    have "0 < length (filter raise_exception (message_log w1))
              + length (filter (\<lambda>m. \<not> raise_exception m) (message_log w1))"
      by simp
    with False show ?thesis
      by (simp add: process_item_eq [OF at] Let_def entries_append_all)
  qed
qed

text \<open>
  C10. \<^verbatim>\<open>bulk_workflow_approval\<close> empties the message log before it touches the first item:
  the loop, and with it the whole call, does the same whatever the log held before, the first
  item is processed in the world with the empty log, and the message log the call leaves
  consists of the report alone (at most the two messages titled Workflow Status), so nothing
  the caller had pending appears in it.
\<close>

theorem bulk_clears_message_log:
  "bulk_loop env (w\<lparr>message_log := ml\<rparr>) ns dt act tr items
     = bulk_loop env (w\<lparr>message_log := []\<rparr>) ns dt act tr items
   \<and> bulk_loop env w ns dt act tr (item # items)
     = foldl (\<lambda>st item. process_item env ns dt act tr item st)
         (process_item env ns dt act tr item (w\<lparr>message_log := []\<rparr>, [], [])) items
   \<and> bulk_workflow_approval env (w\<lparr>message_log := ml\<rparr>) ns dt act tr
     = bulk_workflow_approval env (w\<lparr>message_log := []\<rparr>) ns dt act tr
   \<and> message_log (bulk_workflow_approval env (w\<lparr>message_log := ml\<rparr>) ns dt act tr) =
       bulk_report env dt
         (fst (snd (bulk_loop env w ns dt act tr (zip [1..<Suc (length ns)] ns))))
         (snd (snd (bulk_loop env w ns dt act tr (zip [1..<Suc (length ns)] ns))))"
proof -
  have loop: "\<And>items. bulk_loop env (w\<lparr>message_log := ml\<rparr>) ns dt act tr items
                = bulk_loop env w ns dt act tr items"
    by (simp add: bulk_loop_def clear_messages_def)
  have loop': "\<And>items. bulk_loop env (w\<lparr>message_log := []\<rparr>) ns dt act tr items
                = bulk_loop env w ns dt act tr items"
    by (simp add: bulk_loop_def clear_messages_def)
  have whole: "bulk_workflow_approval env (w\<lparr>message_log := ml\<rparr>) ns dt act tr
                = bulk_workflow_approval env w ns dt act tr"
    by (simp add: bulk_workflow_approval_def loop)
  have whole': "bulk_workflow_approval env (w\<lparr>message_log := []\<rparr>) ns dt act tr
                = bulk_workflow_approval env w ns dt act tr"
    by (simp add: bulk_workflow_approval_def loop')
  have first: "bulk_loop env w ns dt act tr (item # items)
     = foldl (\<lambda>st item. process_item env ns dt act tr item st)
         (process_item env ns dt act tr item (w\<lparr>message_log := []\<rparr>, [], [])) items"
    by (simp add: bulk_loop_def clear_messages_def)
  show ?thesis
    by (simp only: loop loop' whole whole' first [symmetric] report_messages simp_thms)
qed

theorem bulk_clears_message_log_witness:
  "message_log (bulk_workflow_approval (example_env ''alice'' (example_workflow example_transitions))
      ((example_world example_batch [])
         \<lparr>message_log := [\<lparr>msg_text = ''Saved'', raise_exception = False, msg_title = None,
                            indicator = None\<rparr>]\<rparr>)
      [''EXP-1''] ''Expense'' ''Submit for Review'' None)
   = [\<lparr>msg_text = ''<h4>Successful Transactions</h4><details><summary>EXP-1</summary></details>'',
       raise_exception = False, msg_title = Some ''Workflow Status'',
       indicator = Some ''green''\<rparr>]"
proof -
  let ?E = "example_env ''alice'' (example_workflow example_transitions)"
  let ?W = "example_world example_batch []"
  let ?m = "\<lparr>msg_text = ''Saved'', raise_exception = False, msg_title = None, indicator = None\<rparr>"
  have loop: "snd (bulk_loop ?E ?W [''EXP-1''] ''Expense'' ''Submit for Review'' None
                     (zip [1..<Suc (length [''EXP-1''])] [''EXP-1'']))
              = ([], [(''EXP-1'', [\<lparr>entry_docname = ''EXP-1'', entry_message = None\<rparr>])])"
    by (simp add: bulk_defs model_defs example_defs example_batch_def)
  from bulk_clears_message_log [where env = ?E and w = ?W and ns = "[''EXP-1'']"
         and dt = "''Expense''" and act = "''Submit for Review''" and tr = None and ml = "[?m]"]
  have "message_log (bulk_workflow_approval ?E (?W\<lparr>message_log := [?m]\<rparr>)
            [''EXP-1''] ''Expense'' ''Submit for Review'' None)
        = bulk_report ?E ''Expense''
            (fst (snd (bulk_loop ?E ?W [''EXP-1''] ''Expense'' ''Submit for Review'' None
                     (zip [1..<Suc (length [''EXP-1''])] [''EXP-1'']))))
            (snd (snd (bulk_loop ?E ?W [''EXP-1''] ''Expense'' ''Submit for Review'' None
                     (zip [1..<Suc (length [''EXP-1''])] [''EXP-1'']))))"
    by blast
  then show ?thesis
    unfolding loop
    by (simp add: bulk_report_def workflow_status_def bulk_indicator_def truthy_def
          example_env_def)
qed

text \<open>
  C8 (as the code has it). The loop goes through the items in input order, each from the
  state its predecessor left, whether that one failed or not. After an item the store of the
  unit of work equals the committed store: on success what \<^verbatim>\<open>apply_workflow\<close> did is committed,
  on failure the store is rolled back to what was committed before the item. Every item adds
  at least one entry under its name to one of the two logs; a caught error that left the
  message log empty becomes one failed entry made of the class name and the argument of the
  exception, and one that left messages becomes one entry per message, failed for a message
  flagged \<^verbatim>\<open>raise_exception\<close> and successful for any other. The severity is orange when both
  logs have entries, red when only the failed log has, green otherwise; for a run in which
  every failing item leaves only flagged messages and every succeeding item only unflagged
  ones this is green when all items succeed, red when all fail (and there is one) and orange
  when both occur.
\<close>

theorem bulk_isolation_and_severity:
  "bulk_loop env w ns dt act tr (items @ [item])
     = process_item env ns dt act tr item (bulk_loop env w ns dt act tr items)
   \<and> (let r = fst (attempt env w0 ns dt act tr i n);
          w1 = snd (attempt env w0 ns dt act tr i n);
          st' = process_item env ns dt act tr (i, n) (w0, f, s)
      in db (fst st') = committed (fst st')
         \<and> (r = None \<longrightarrow> committed (fst st') = db w1)
         \<and> (r \<noteq> None \<longrightarrow> committed (fst st') = committed w0)
         \<and> length (entries f n) + length (entries s n)
             < length (entries (fst (snd st')) n) + length (entries (snd (snd st')) n)
         \<and> (\<forall>e. r = Some e \<and> message_log w1 = [] \<longrightarrow>
               fst (snd st') = dict_append f n
                 \<lparr>entry_docname = n, entry_message = Some (exception_message e)\<rparr>
               \<and> snd (snd st') = s)
         \<and> (r \<noteq> None \<and> message_log w1 \<noteq> [] \<longrightarrow>
               fst (snd st') = append_all n f
                 (map (message_entry n) (filter raise_exception (message_log w1)))
               \<and> snd (snd st') = append_all n s
                 (map (message_entry n) (filter (\<lambda>m. \<not> raise_exception m) (message_log w1)))))
   \<and> (plainly_reported env ns dt act tr items (clear_messages w, [], []) \<longrightarrow>
        bulk_indicator (fst (snd (bulk_loop env w ns dt act tr items)))
                       (snd (snd (bulk_loop env w ns dt act tr items)))
          = (let os = run_outcomes env ns dt act tr items (clear_messages w, [], [])
             in if False \<in> set os \<and> True \<in> set os then ''orange''
                else if False \<in> set os then ''red'' else ''green''))"
proof (intro conjI)
  show "bulk_loop env w ns dt act tr (items @ [item])
     = process_item env ns dt act tr item (bulk_loop env w ns dt act tr items)"
    by (rule bulk_loop_snoc)
next
  obtain r w1 where at: "attempt env w0 ns dt act tr i n = (r, w1)"
    by (cases "attempt env w0 ns dt act tr i n")
  note tx = process_item_transaction [OF at, of f s]
  note en = process_item_entry [of f n s env ns dt act tr i w0]
  have logs: "\<forall>e. r = Some e \<and> message_log w1 = [] \<longrightarrow>
               fst (snd (process_item env ns dt act tr (i, n) (w0, f, s))) = dict_append f n
                 \<lparr>entry_docname = n, entry_message = Some (exception_message e)\<rparr>
               \<and> snd (snd (process_item env ns dt act tr (i, n) (w0, f, s))) = s"
    by (simp add: process_item_eq [OF at] Let_def)
  have logs': "r \<noteq> None \<and> message_log w1 \<noteq> [] \<longrightarrow>
               fst (snd (process_item env ns dt act tr (i, n) (w0, f, s))) = append_all n f
                 (map (message_entry n) (filter raise_exception (message_log w1)))
               \<and> snd (snd (process_item env ns dt act tr (i, n) (w0, f, s))) = append_all n s
                 (map (message_entry n) (filter (\<lambda>m. \<not> raise_exception m) (message_log w1)))"
    by (simp add: process_item_eq [OF at] Let_def)
  from tx en logs logs'
  show "let r = fst (attempt env w0 ns dt act tr i n);
          w1 = snd (attempt env w0 ns dt act tr i n);
          st' = process_item env ns dt act tr (i, n) (w0, f, s)
      in db (fst st') = committed (fst st')
         \<and> (r = None \<longrightarrow> committed (fst st') = db w1)
         \<and> (r \<noteq> None \<longrightarrow> committed (fst st') = committed w0)
         \<and> length (entries f n) + length (entries s n)
             < length (entries (fst (snd st')) n) + length (entries (snd (snd st')) n)
         \<and> (\<forall>e. r = Some e \<and> message_log w1 = [] \<longrightarrow>
               fst (snd st') = dict_append f n
                 \<lparr>entry_docname = n, entry_message = Some (exception_message e)\<rparr>
               \<and> snd (snd st') = s)
         \<and> (r \<noteq> None \<and> message_log w1 \<noteq> [] \<longrightarrow>
               fst (snd st') = append_all n f
                 (map (message_entry n) (filter raise_exception (message_log w1)))
               \<and> snd (snd st') = append_all n s
                 (map (message_entry n) (filter (\<lambda>m. \<not> raise_exception m) (message_log w1))))"
    unfolding Let_def at fst_conv snd_conv by blast
next
  show "plainly_reported env ns dt act tr items (clear_messages w, [], []) \<longrightarrow>
        bulk_indicator (fst (snd (bulk_loop env w ns dt act tr items)))
                       (snd (snd (bulk_loop env w ns dt act tr items)))
          = (let os = run_outcomes env ns dt act tr items (clear_messages w, [], [])
             in if False \<in> set os \<and> True \<in> set os then ''orange''
                else if False \<in> set os then ''red'' else ''green'')"
  proof
    assume plain: "plainly_reported env ns dt act tr items (clear_messages w, [], [])"
    obtain w' f' s' where bl: "bulk_loop env w ns dt act tr items = (w', f', s')"
      by (cases "bulk_loop env w ns dt act tr items")
    then have "foldl (\<lambda>st item. process_item env ns dt act tr item st)
                 (clear_messages w, [], []) items = (w', f', s')"
      by (simp add: bulk_loop_def)
    from run_severity [OF plain this] bl
    show "bulk_indicator (fst (snd (bulk_loop env w ns dt act tr items)))
                       (snd (snd (bulk_loop env w ns dt act tr items)))
          = (let os = run_outcomes env ns dt act tr items (clear_messages w, [], [])
             in if False \<in> set os \<and> True \<in> set os then ''orange''
                else if False \<in> set os then ''red'' else ''green'')"
      by (auto simp: bulk_indicator_def Let_def)
  qed
qed

text \<open>
  A batch of one document whose \<^verbatim>\<open>save\<close> prints a note and then throws: the item fails and is
  rolled back, yet its note is filed under the successful transactions, and the report of a
  batch in which every item failed is orange.
\<close>

theorem noted_failure_counterexample:
  "fst (attempt ((example_env ''alice'' (example_workflow example_transitions))
                   \<lparr>save := example_failing_save\<rparr>)
          (example_world example_batch []) [''EXP-1''] ''Expense'' ''Submit for Review'' None
          1 ''EXP-1'')
     = Some (Exn ValidationError (Some ''Cost center is required''))
   \<and> run_outcomes ((example_env ''alice'' (example_workflow example_transitions))
                      \<lparr>save := example_failing_save\<rparr>)
        [''EXP-1''] ''Expense'' ''Submit for Review'' None [(1, ''EXP-1'')]
        (clear_messages (example_world example_batch []), [], []) = [False]
   \<and> snd (bulk_loop ((example_env ''alice'' (example_workflow example_transitions))
                      \<lparr>save := example_failing_save\<rparr>)
        (example_world example_batch []) [''EXP-1''] ''Expense'' ''Submit for Review'' None
        [(1, ''EXP-1'')])
     = ([(''EXP-1'', [\<lparr>entry_docname = ''EXP-1'',
                       entry_message = Some ''Cost center is required''\<rparr>])],
        [(''EXP-1'', [\<lparr>entry_docname = ''EXP-1'',
                       entry_message = Some ''Amount exceeds the budget''\<rparr>])])
   \<and> map indicator (message_log (bulk_workflow_approval
        ((example_env ''alice'' (example_workflow example_transitions))
           \<lparr>save := example_failing_save\<rparr>)
        (example_world example_batch []) [''EXP-1''] ''Expense'' ''Submit for Review'' None))
     = [Some ''orange'', Some ''orange'']"
  by (simp add: bulk_defs model_defs example_defs example_batch_def example_failing_save_def)

theorem bulk_isolation_and_severity_witness:
  "plainly_reported (example_env ''alice'' (example_workflow example_transitions))
      [''EXP-1'', ''EXP-2'', ''EXP-3''] ''Expense'' ''Submit for Review'' None
      [(1, ''EXP-1''), (2, ''EXP-2''), (3, ''EXP-3'')]
      (clear_messages (example_world example_batch []), [], [])
   \<and> run_outcomes (example_env ''alice'' (example_workflow example_transitions))
      [''EXP-1'', ''EXP-2'', ''EXP-3''] ''Expense'' ''Submit for Review'' None
      [(1, ''EXP-1''), (2, ''EXP-2''), (3, ''EXP-3'')]
      (clear_messages (example_world example_batch []), [], []) = [True, False, True]
   \<and> bulk_indicator
        (fst (snd (bulk_loop (example_env ''alice'' (example_workflow example_transitions))
           (example_world example_batch []) [''EXP-1'', ''EXP-2'', ''EXP-3''] ''Expense''
           ''Submit for Review'' None [(1, ''EXP-1''), (2, ''EXP-2''), (3, ''EXP-3'')])))
        (snd (snd (bulk_loop (example_env ''alice'' (example_workflow example_transitions))
           (example_world example_batch []) [''EXP-1'', ''EXP-2'', ''EXP-3''] ''Expense''
           ''Submit for Review'' None [(1, ''EXP-1''), (2, ''EXP-2''), (3, ''EXP-3'')])))
     = ''orange''
   \<and> committed (fst (process_item (example_env ''alice'' (example_workflow example_transitions))
        [''EXP-1'', ''EXP-2'', ''EXP-3''] ''Expense'' ''Submit for Review'' None (2, ''EXP-2'')
        (example_world example_batch [], [], [])))
     = committed (example_world example_batch [])"
proof -
  let ?E = "example_env ''alice'' (example_workflow example_transitions)"
  let ?W = "example_world example_batch []"
  let ?ns = "[''EXP-1'', ''EXP-2'', ''EXP-3'']"
  let ?items = "[(1::nat, ''EXP-1''), (2, ''EXP-2''), (3, ''EXP-3'')]"
  have fails: "fst (attempt ?E ?W ?ns ''Expense'' ''Submit for Review'' None 2 ''EXP-2'') \<noteq> None"
    by (simp add: bulk_defs model_defs example_defs example_batch_def)
  have plain: "plainly_reported ?E ?ns ''Expense'' ''Submit for Review'' None ?items
                 (clear_messages ?W, [], [])"
    by (simp add: bulk_defs model_defs example_defs example_batch_def)
  have outs: "run_outcomes ?E ?ns ''Expense'' ''Submit for Review'' None ?items
                 (clear_messages ?W, [], []) = [True, False, True]"
    by (simp add: bulk_defs model_defs example_defs example_batch_def)
  note inst = bulk_isolation_and_severity [where env = ?E and w = ?W and ns = ?ns
      and dt = "''Expense''" and act = "''Submit for Review''" and tr = None
      and items = ?items and w0 = ?W and i = 2 and n = "''EXP-2''" and f = "[]" and s = "[]"]
  from inst plain outs
  have sev: "bulk_indicator
        (fst (snd (bulk_loop ?E ?W ?ns ''Expense'' ''Submit for Review'' None ?items)))
        (snd (snd (bulk_loop ?E ?W ?ns ''Expense'' ''Submit for Review'' None ?items)))
     = ''orange''"
    by (simp add: Let_def)
  from inst fails
  have rb: "committed (fst (process_item ?E ?ns ''Expense'' ''Submit for Review'' None
                (2, ''EXP-2'') (?W, [], []))) = committed ?W"
    unfolding Let_def by blast
  from plain outs sev rb show ?thesis by simp
qed

end
